theory Spec2Isabelle
  imports Complex_Main "HOL-Library.Multiset" "HOL-Library.Sublist" "HOL-Library.Word"
begin

section \<open>Streamflow dashboard: station table preparation, map figure and click handler\<close>

text \<open>
  The development follows \<^verbatim>\<open>app.py\<close>. The script loads a station table
  (\<^verbatim>\<open>merged_df\<close>) and a results store (\<^verbatim>\<open>results\<close>), derives the
  \<^verbatim>\<open>NSE\<close> label column, builds the map figure and registers the click handler
  \<^verbatim>\<open>update_plot\<close>. Library calls (pandas, xarray, plotly express, pyplot) are
  rendered by the part of their behaviour that the script relies on.
\<close>

subsection \<open>Numbers, JSON payloads and exceptions\<close>

text \<open>
  A Python float is a finite number, an infinity or NaN. Finite floats are kept as exact
  rationals; every comparison with NaN is false, as in IEEE 754.
\<close>

datatype pyfloat = NaN | NegInf | Fin rat | PosInf

fun float_gt :: "pyfloat \<Rightarrow> pyfloat \<Rightarrow> bool" where
  "float_gt NaN y = False"
| "float_gt x NaN = False"
| "float_gt NegInf y = False"
| "float_gt (Fin a) NegInf = True"
| "float_gt (Fin a) (Fin b) = (b < a)"
| "float_gt (Fin a) PosInf = False"
| "float_gt PosInf PosInf = False"
| "float_gt PosInf y = True"

fun float_le :: "pyfloat \<Rightarrow> pyfloat \<Rightarrow> bool" where
  "float_le NaN y = False"
| "float_le x NaN = False"
| "float_le NegInf y = True"
| "float_le (Fin a) NegInf = False"
| "float_le (Fin a) (Fin b) = (a \<le> b)"
| "float_le (Fin a) PosInf = True"
| "float_le PosInf PosInf = True"
| "float_le PosInf y = False"

text \<open>
  The float literals of lines 30 to 32, as the exact numbers the interpreter reads them
  to (the doubles nearest to 0.5, 0.7 and 0.8).
\<close>

definition lit_0_5 :: pyfloat where
  "lit_0_5 = Fin (1 / 2)"

definition lit_0_7 :: pyfloat where
  "lit_0_7 = Fin (3152519739159347 / 4503599627370496)"

definition lit_0_8 :: pyfloat where
  "lit_0_8 = Fin (3602879701896397 / 4503599627370496)"

text \<open>The click payload is decoded JSON.\<close>

datatype json =
    JNone
  | JBool bool
  | JInt int
  | JFloat pyfloat
  | JStr string
  | JList "json list"
  | JDict "(string \<times> json) list"

text \<open>
  Exceptions, by class. A \<^verbatim>\<open>KeyError\<close> carries the missing key; an exception of
  the renderer carries its own description.
\<close>

datatype exn =
    KeyError json
  | IndexError
  | TypeError
  | ValueError
  | AttributeError
  | RuntimeError string

fun traverse :: "('a \<Rightarrow> exn + 'b) \<Rightarrow> 'a list \<Rightarrow> exn + 'b list" where
  "traverse f [] = Inr []"
| "traverse f (x # xs) =
     (case f x of
        Inl e \<Rightarrow> Inl e
      | Inr y \<Rightarrow> (case traverse f xs of Inl e \<Rightarrow> Inl e | Inr ys \<Rightarrow> Inr (y # ys)))"

subsection \<open>The station table\<close>

text \<open>
  A table cell is a float, an integer, a string or a date (a \<^verbatim>\<open>datetime64\<close>,
  kept as its integer count). A table is its row labels and its named columns, in
  order; every column has one cell per row.
\<close>

datatype cell = CFloat pyfloat | CInt int | CStr string | CDate int

record 'i dataframe =
  index :: "'i list"
  columns :: "(string \<times> cell list) list"

definition wf_dataframe :: "'i dataframe \<Rightarrow> bool" where
  "wf_dataframe df =
     (distinct (map fst (columns df)) \<and>
      list_all (\<lambda>(n, c). length c = length (index df)) (columns df))"

text \<open>\<^verbatim>\<open>df[name]\<close>: the column, or \<^verbatim>\<open>KeyError\<close>.\<close>

definition getitem_column :: "'i dataframe \<Rightarrow> string \<Rightarrow> exn + cell list" where
  "getitem_column df name =
     (case map_of (columns df) name of
        None \<Rightarrow> Inl (KeyError (JStr name))
      | Some c \<Rightarrow> Inr c)"

text \<open>
  \<^verbatim>\<open>df[name] = scalar\<close>: a column of that name is replaced where it stands, a new
  one is appended; either way every row gets the scalar.
\<close>

definition setitem_scalar :: "'i dataframe \<Rightarrow> string \<Rightarrow> cell \<Rightarrow> 'i dataframe" where
  "setitem_scalar df name v =
     (let col = replicate (length (index df)) v in
      if name \<in> set (map fst (columns df))
      then df\<lparr>columns := map (\<lambda>(n, c). if n = name then (n, col) else (n, c)) (columns df)\<rparr>
      else df\<lparr>columns := columns df @ [(name, col)]\<rparr>)"

text \<open>
  Comparison of a column with a float: numeric cells compare as numbers, a string or a
  date raises \<^verbatim>\<open>TypeError\<close>.
\<close>

fun cell_float :: "cell \<Rightarrow> pyfloat option" where
  "cell_float (CFloat f) = Some f"
| "cell_float (CInt i) = Some (Fin (of_int i))"
| "cell_float (CStr s) = None"
| "cell_float (CDate d) = None"

definition cell_gt :: "pyfloat \<Rightarrow> cell \<Rightarrow> exn + bool" where
  "cell_gt t c = (case cell_float c of None \<Rightarrow> Inl TypeError | Some f \<Rightarrow> Inr (float_gt f t))"

definition cell_le :: "pyfloat \<Rightarrow> cell \<Rightarrow> exn + bool" where
  "cell_le t c = (case cell_float c of None \<Rightarrow> Inl TypeError | Some f \<Rightarrow> Inr (float_le f t))"

definition series_gt :: "cell list \<Rightarrow> pyfloat \<Rightarrow> exn + bool list" where
  "series_gt col t = traverse (cell_gt t) col"

definition series_le :: "cell list \<Rightarrow> pyfloat \<Rightarrow> exn + bool list" where
  "series_le col t = traverse (cell_le t) col"

definition mask_and :: "bool list \<Rightarrow> bool list \<Rightarrow> bool list" where
  "mask_and a b = map2 (\<and>) a b"

text \<open>
  \<^verbatim>\<open>df.loc[mask, name] = scalar\<close>: the cells of the rows the mask selects are
  overwritten. On a missing column pandas creates it, with NaN in the other rows.
\<close>

definition loc_setitem :: "'i dataframe \<Rightarrow> bool list \<Rightarrow> string \<Rightarrow> cell \<Rightarrow> 'i dataframe" where
  "loc_setitem df sel name v =
     (if name \<in> set (map fst (columns df))
      then df\<lparr>columns :=
             map (\<lambda>(n, c). if n = name then (n, map2 (\<lambda>m x. if m then v else x) sel c) else (n, c))
               (columns df)\<rparr>
      else df\<lparr>columns :=
             columns df @ [(name, map (\<lambda>m. if m then v else CFloat NaN) sel)]\<rparr>)"

text \<open>Lines 29 to 32: the four statements that derive the \<^verbatim>\<open>NSE\<close> column.\<close>

definition score_column :: string where
  "score_column = ''casr_daymet_era5_NSE''"

definition label_not_satisfactory :: string where
  "label_not_satisfactory = ''Not Satisfactory: NSE < 0.5''"

definition label_satisfactory :: string where
  "label_satisfactory = ''Satisfactory: NSE = 0.5-0.7''"

definition label_good :: string where
  "label_good = ''Good: NSE = 0.7-0.8''"

definition label_very_good :: string where
  "label_very_good = ''Very Good: NSE > 0.8''"

text \<open>The mask \<^verbatim>\<open>(df[score] > lo) & (df[score] <= hi)\<close>.\<close>

definition mask_between :: "'i dataframe \<Rightarrow> pyfloat \<Rightarrow> pyfloat \<Rightarrow> exn + bool list" where
  "mask_between df lo hi =
     (case getitem_column df score_column of
        Inl e \<Rightarrow> Inl e
      | Inr c1 \<Rightarrow>
          (case series_gt c1 lo of
             Inl e \<Rightarrow> Inl e
           | Inr a \<Rightarrow>
               (case getitem_column df score_column of
                  Inl e \<Rightarrow> Inl e
                | Inr c2 \<Rightarrow>
                    (case series_le c2 hi of
                       Inl e \<Rightarrow> Inl e
                     | Inr b \<Rightarrow> Inr (mask_and a b)))))"

definition mask_above :: "'i dataframe \<Rightarrow> pyfloat \<Rightarrow> exn + bool list" where
  "mask_above df lo =
     (case getitem_column df score_column of
        Inl e \<Rightarrow> Inl e
      | Inr c \<Rightarrow> series_gt c lo)"

definition add_nse_category :: "'i dataframe \<Rightarrow> exn + 'i dataframe" where
  "add_nse_category merged_df =
     (let df1 = setitem_scalar merged_df ''NSE'' (CStr label_not_satisfactory) in
      case mask_between df1 lit_0_5 lit_0_7 of
        Inl e \<Rightarrow> Inl e
      | Inr m1 \<Rightarrow>
          (let df2 = loc_setitem df1 m1 ''NSE'' (CStr label_satisfactory) in
           case mask_between df2 lit_0_7 lit_0_8 of
             Inl e \<Rightarrow> Inl e
           | Inr m2 \<Rightarrow>
               (let df3 = loc_setitem df2 m2 ''NSE'' (CStr label_good) in
                case mask_above df3 lit_0_8 of
                  Inl e \<Rightarrow> Inl e
                | Inr m3 \<Rightarrow> Inr (loc_setitem df3 m3 ''NSE'' (CStr label_very_good)))))"


text \<open>
  The label the four statements leave in a row whose score is \<open>s\<close>: the default, then
  the three overwrites in the order of lines 30, 31 and 32.
\<close>

definition row_label :: "pyfloat \<Rightarrow> string" where
  "row_label s =
     (let l = label_not_satisfactory;
          l = (if float_gt s lit_0_5 \<and> float_le s lit_0_7 then label_satisfactory else l);
          l = (if float_gt s lit_0_7 \<and> float_le s lit_0_8 then label_good else l);
          l = (if float_gt s lit_0_8 then label_very_good else l)
      in l)"

definition numeric :: "cell \<Rightarrow> bool" where
  "numeric c = (cell_float c \<noteq> None)"

definition score_of :: "cell \<Rightarrow> pyfloat" where
  "score_of c = (case cell_float c of Some f \<Rightarrow> f | None \<Rightarrow> NaN)"

definition sel1 :: "cell list \<Rightarrow> bool list" where
  "sel1 sc = map (\<lambda>c. float_gt (score_of c) lit_0_5 \<and> float_le (score_of c) lit_0_7) sc"

definition sel2 :: "cell list \<Rightarrow> bool list" where
  "sel2 sc = map (\<lambda>c. float_gt (score_of c) lit_0_7 \<and> float_le (score_of c) lit_0_8) sc"

definition sel3 :: "cell list \<Rightarrow> bool list" where
  "sel3 sc = map (\<lambda>c. float_gt (score_of c) lit_0_8) sc"

subsection \<open>The map figure\<close>

text \<open>
  Lines 38 to 51. With a column of strings as \<^verbatim>\<open>color\<close>, plotly express makes one
  trace per distinct entry of that column, in order of first appearance, and puts each
  row into the trace of its entry. The trace's marker colour is the entry's colour in
  \<^verbatim>\<open>color_discrete_map\<close>; for an entry that is not a key of the map the library
  picks a colour of its own. Each point carries the row's \<^verbatim>\<open>hover_data\<close> cells as
  \<^verbatim>\<open>customdata\<close>. The field \<open>row\<close> records the table row a point was made from;
  it is bookkeeping of this development, the figure itself does not store it.
\<close>

datatype colour = Fixed string | LibraryDefault

record point =
  lat :: cell
  lon :: cell
  customdata :: "cell list"
  row :: nat

record trace =
  trace_name :: cell
  marker_color :: colour
  points :: "point list"

definition color_discrete_map :: "(string \<times> string) list" where
  "color_discrete_map =
     [(''Not Satisfactory: NSE < 0.5'', ''red''),
      (''Satisfactory: NSE = 0.5-0.7'', ''yellow''),
      (''Good: NSE = 0.7-0.8'', ''lightgreen''),
      (''Very Good: NSE > 0.8'', ''green'')]"

definition discrete_colour :: "(string \<times> string) list \<Rightarrow> cell \<Rightarrow> colour" where
  "discrete_colour cmap v =
     (case v of
        CStr l \<Rightarrow> (case map_of cmap l of Some c \<Rightarrow> Fixed c | None \<Rightarrow> LibraryDefault)
      | _ \<Rightarrow> LibraryDefault)"

definition first_seen :: "'a list \<Rightarrow> 'a list" where
  "first_seen xs = rev (remdups (rev xs))"

text \<open>A column that a plotly express argument names must exist.\<close>

definition px_column :: "'i dataframe \<Rightarrow> string \<Rightarrow> exn + cell list" where
  "px_column df name =
     (case map_of (columns df) name of None \<Rightarrow> Inl ValueError | Some c \<Rightarrow> Inr c)"

definition scatter_mapbox ::
  "'i dataframe \<Rightarrow> string \<Rightarrow> string \<Rightarrow> string \<Rightarrow> string list \<Rightarrow> (string \<times> string) list
     \<Rightarrow> exn + trace list" where
  "scatter_mapbox df lat_name lon_name color_name hover_data cmap =
     (case px_column df lat_name of
        Inl e \<Rightarrow> Inl e
      | Inr lats \<Rightarrow>
     (case px_column df lon_name of
        Inl e \<Rightarrow> Inl e
      | Inr lons \<Rightarrow>
     (case px_column df color_name of
        Inl e \<Rightarrow> Inl e
      | Inr cats \<Rightarrow>
     (case traverse (px_column df) hover_data of
        Inl e \<Rightarrow> Inl e
      | Inr hover \<Rightarrow>
          Inr (map (\<lambda>v.
                 \<lparr>trace_name = v,
                  marker_color = discrete_colour cmap v,
                  points =
                    map (\<lambda>i. \<lparr>lat = lats ! i, lon = lons ! i,
                                customdata = map (\<lambda>col. col ! i) hover, row = i\<rparr>)
                      (filter (\<lambda>i. cats ! i = v) [0..<length (index df)])\<rparr>)
               (first_seen cats))))))"

definition fig :: "'i dataframe \<Rightarrow> exn + trace list" where
  "fig merged_df =
     scatter_mapbox merged_df ''lat'' ''long'' ''NSE'' [''gauge_id'', score_column]
       color_discrete_map"

subsection \<open>The results store\<close>

text \<open>
  An array is nested lists over scalars, with its shape; an xarray variable names the
  dimension of each axis. A dataset has data variables and coordinates.
\<close>

datatype 'a nd = Scalar 'a | Arr "'a nd list"

record variable =
  dims :: "string list"
  shape :: "nat list"
  data :: "cell nd"

record dataset =
  data_vars :: "(string \<times> variable) list"
  coords :: "(string \<times> variable) list"

record dataarray =
  da_variable :: variable
  da_coords :: "(string \<times> variable) list"

fun conforms :: "nat list \<Rightarrow> 'a nd \<Rightarrow> bool" where
  "conforms [] (Scalar x) = True"
| "conforms (n # ns) (Arr xs) = (length xs = n \<and> (\<forall>x \<in> set xs. conforms ns x))"
| "conforms [] (Arr xs) = False"
| "conforms (n # ns) (Scalar x) = False"

definition wf_variable :: "variable \<Rightarrow> bool" where
  "wf_variable v =
     (length (dims v) = length (shape v) \<and> distinct (dims v) \<and> conforms (shape v) (data v))"

definition dim_sizes :: "(string \<times> variable) list \<Rightarrow> (string \<times> nat) list" where
  "dim_sizes vs = concat (map (\<lambda>(n, v). zip (dims v) (shape v)) vs)"

text \<open>Every variable is well formed and a dimension has one size throughout.\<close>

definition wf_dataset :: "dataset \<Rightarrow> bool" where
  "wf_dataset ds =
     ((\<forall>(n, v) \<in> set (data_vars ds @ coords ds). wf_variable v) \<and>
      (\<forall>(d, n) \<in> set (dim_sizes (data_vars ds @ coords ds)).
         \<forall>(d', n') \<in> set (dim_sizes (data_vars ds @ coords ds)). d = d' \<longrightarrow> n = n'))"

text \<open>A dimension without a coordinate reads as the index range of its size.\<close>

definition range_variable :: "string \<Rightarrow> nat \<Rightarrow> variable" where
  "range_variable d n = \<lparr>dims = [d], shape = [n], data = Arr (map (\<lambda>i. Scalar (CInt (int i))) [0..<n])\<rparr>"

text \<open>
  \<^verbatim>\<open>ds[name]\<close>: the variable with the coordinates whose dimensions are among its own.
\<close>

definition dataset_getitem :: "dataset \<Rightarrow> string \<Rightarrow> exn + dataarray" where
  "dataset_getitem ds name =
     (case map_of (data_vars ds @ coords ds) name of
        Some v \<Rightarrow>
          Inr \<lparr>da_variable = v,
               da_coords = filter (\<lambda>(k, c). set (dims c) \<subseteq> set (dims v)) (coords ds)\<rparr>
      | None \<Rightarrow>
          (case map_of (dim_sizes (data_vars ds @ coords ds)) name of
             Some n \<Rightarrow> Inr \<lparr>da_variable = range_variable name n, da_coords = []\<rparr>
           | None \<Rightarrow> Inl (KeyError (JStr name))))"

fun collect :: "(exn + 'a) list \<Rightarrow> exn + 'a list" where
  "collect [] = Inr []"
| "collect (r # rs) =
     (case r of
        Inl e \<Rightarrow> Inl e
      | Inr y \<Rightarrow> (case collect rs of Inl e \<Rightarrow> Inl e | Inr ys \<Rightarrow> Inr (y # ys)))"

text \<open>Index \<open>-1\<close> along axis \<open>k\<close>: the last entry, the axis removed.\<close>

fun take_last :: "nat \<Rightarrow> 'a nd \<Rightarrow> exn + 'a nd" where
  "take_last k (Scalar x) = Inl IndexError"
| "take_last 0 (Arr xs) = (if xs = [] then Inl IndexError else Inr (last xs))"
| "take_last (Suc k) (Arr xs) =
     (case collect (map (take_last k) xs) of Inl e \<Rightarrow> Inl e | Inr ys \<Rightarrow> Inr (Arr ys))"

fun axis_of :: "string \<Rightarrow> string list \<Rightarrow> nat" where
  "axis_of d [] = 0"
| "axis_of d (x # xs) = (if x = d then 0 else Suc (axis_of d xs))"

definition drop_axis :: "nat \<Rightarrow> 'a list \<Rightarrow> 'a list" where
  "drop_axis k xs = take k xs @ drop (Suc k) xs"

definition variable_isel_last :: "string \<Rightarrow> variable \<Rightarrow> exn + variable" where
  "variable_isel_last d v =
     (let k = axis_of d (dims v) in
      if k < length (shape v) \<and> shape v ! k = 0 then Inl IndexError
      else
        (case take_last k (data v) of
           Inl e \<Rightarrow> Inl e
         | Inr a \<Rightarrow> Inr \<lparr>dims = drop_axis k (dims v), shape = drop_axis k (shape v), data = a\<rparr>))"

text \<open>
  \<^verbatim>\<open>da.isel(d=-1)\<close>: a dimension the array does not have is refused; the array and
  every coordinate along \<open>d\<close> are indexed, the other coordinates stay.
\<close>

definition isel_last :: "dataarray \<Rightarrow> string \<Rightarrow> exn + dataarray" where
  "isel_last da d =
     (if d \<notin> set (dims (da_variable da)) then Inl ValueError
      else
        (case variable_isel_last d (da_variable da) of
           Inl e \<Rightarrow> Inl e
         | Inr v \<Rightarrow>
             (case traverse
                     (\<lambda>(k, c). if d \<in> set (dims c)
                               then (case variable_isel_last d c of
                                       Inl e \<Rightarrow> Inl e
                                     | Inr c' \<Rightarrow> Inr (k, c'))
                               else Inr (k, c))
                     (da_coords da) of
                Inl e \<Rightarrow> Inl e
              | Inr cs \<Rightarrow> Inr \<lparr>da_variable = v, da_coords = cs\<rparr>)))"

text \<open>\<^verbatim>\<open>da[name]\<close>: a coordinate of the array.\<close>

definition dataarray_getitem :: "dataarray \<Rightarrow> string \<Rightarrow> exn + variable" where
  "dataarray_getitem da name =
     (case map_of (da_coords da) name of
        Some c \<Rightarrow> Inr c
      | None \<Rightarrow>
          (case map_of (zip (dims (da_variable da)) (shape (da_variable da))) name of
             Some n \<Rightarrow> Inr (range_variable name n)
           | None \<Rightarrow> Inl (KeyError (JStr name))))"

text \<open>
  \<^verbatim>\<open>pd.DataFrame(dict)\<close> over arrays: an array of two or more axes is refused, so
  are arrays of different lengths, and so is a dict of scalars only; a scalar beside
  one-axis arrays is repeated in every row.
\<close>

fun flatten :: "'a nd \<Rightarrow> 'a list" where
  "flatten (Scalar x) = [x]"
| "flatten (Arr xs) = concat (map flatten xs)"

definition column_cells :: "nat \<Rightarrow> variable \<Rightarrow> cell list" where
  "column_cells n v = (case data v of Scalar c \<Rightarrow> replicate n c | Arr xs \<Rightarrow> flatten (Arr xs))"

definition DataFrame :: "(string \<times> variable) list \<Rightarrow> exn + nat dataframe" where
  "DataFrame d =
     (if list_ex (\<lambda>(k, v). 1 < length (shape v)) d then Inl ValueError
      else
        (let lens = map (\<lambda>(k, v). hd (shape v)) (filter (\<lambda>(k, v). length (shape v) = 1) d) in
         if lens = [] then Inl ValueError
         else if list_ex (\<lambda>l. l \<noteq> hd lens) lens then Inl ValueError
         else Inr \<lparr>index = [0..<hd lens],
                   columns = map (\<lambda>(k, v). (k, column_cells (hd lens) v)) d\<rparr>))"

text \<open>
  Dictionary keys as Python compares them: \<^verbatim>\<open>True\<close>, \<^verbatim>\<open>1\<close> and \<^verbatim>\<open>1.0\<close> are
  one key, NaN equals no key, a list or a dict is unhashable.
\<close>

datatype key = KNone | KNum rat | KInf bool | KStr string | KNaN

fun key_of :: "json \<Rightarrow> exn + key" where
  "key_of JNone = Inr KNone"
| "key_of (JBool b) = Inr (KNum (if b then 1 else 0))"
| "key_of (JInt i) = Inr (KNum (of_int i))"
| "key_of (JFloat NaN) = Inr KNaN"
| "key_of (JFloat NegInf) = Inr (KInf False)"
| "key_of (JFloat (Fin q)) = Inr (KNum q)"
| "key_of (JFloat PosInf) = Inr (KInf True)"
| "key_of (JStr s) = Inr (KStr s)"
| "key_of (JList xs) = Inl TypeError"
| "key_of (JDict d) = Inl TypeError"

text \<open>
  The results store: per station, per temporal resolution, the named entries of that
  resolution, of which \<^verbatim>\<open>xr\<close> is the dataset.
\<close>

type_synonym results_store = "key \<rightharpoonup> (string \<rightharpoonup> (string \<rightharpoonup> dataset))"

text \<open>\<^verbatim>\<open>results[gauge_id]['1D']['xr']\<close>.\<close>

definition lookup_dataset :: "results_store \<Rightarrow> json \<Rightarrow> exn + dataset" where
  "lookup_dataset results gauge_id =
     (case key_of gauge_id of
        Inl e \<Rightarrow> Inl e
      | Inr k \<Rightarrow>
          (case (if k = KNaN then None else results k) of
             None \<Rightarrow> Inl (KeyError gauge_id)
           | Some station \<Rightarrow>
               (case station ''1D'' of
                  None \<Rightarrow> Inl (KeyError (JStr ''1D''))
                | Some res \<Rightarrow>
                    (case res ''xr'' of
                       None \<Rightarrow> Inl (KeyError (JStr ''xr''))
                     | Some ds \<Rightarrow> Inr ds))))"


subsection \<open>The click payload\<close>

text \<open>Truth of a payload, as \<^verbatim>\<open>not clickData\<close> reads it.\<close>

fun truthy :: "json \<Rightarrow> bool" where
  "truthy JNone = False"
| "truthy (JBool b) = b"
| "truthy (JInt i) = (i \<noteq> 0)"
| "truthy (JFloat f) = (f \<noteq> Fin 0)"
| "truthy (JStr s) = (s \<noteq> [])"
| "truthy (JList xs) = (xs \<noteq> [])"
| "truthy (JDict d) = (d \<noteq> [])"

text \<open>Indexing a sequence: a negative index counts from the end.\<close>

definition py_index :: "'a list \<Rightarrow> int \<Rightarrow> exn + 'a" where
  "py_index xs i =
     (if 0 \<le> i \<and> i < int (length xs) then Inr (xs ! nat i)
      else if i < 0 \<and> - int (length xs) \<le> i then Inr (xs ! nat (int (length xs) + i))
      else Inl IndexError)"

text \<open>\<^verbatim>\<open>x['name']\<close> and \<^verbatim>\<open>x[i]\<close> on decoded JSON.\<close>

fun getitem_key :: "json \<Rightarrow> string \<Rightarrow> exn + json" where
  "getitem_key (JDict d) k =
     (case map_of d k of None \<Rightarrow> Inl (KeyError (JStr k)) | Some v \<Rightarrow> Inr v)"
| "getitem_key j k = Inl TypeError"

fun getitem_index :: "json \<Rightarrow> int \<Rightarrow> exn + json" where
  "getitem_index (JList xs) i = py_index xs i"
| "getitem_index (JStr s) i =
     (case py_index s i of Inl e \<Rightarrow> Inl e | Inr c \<Rightarrow> Inr (JStr [c]))"
| "getitem_index (JDict d) i = Inl (KeyError (JInt i))"
| "getitem_index j i = Inl TypeError"

text \<open>Line 98: \<^verbatim>\<open>clickData['points'][0]['customdata'][0]\<close>.\<close>

definition extract_gauge_id :: "json \<Rightarrow> exn + json" where
  "extract_gauge_id clickData =
     (case getitem_key clickData ''points'' of
        Inl e \<Rightarrow> Inl e
      | Inr ps \<Rightarrow>
     (case getitem_index ps 0 of
        Inl e \<Rightarrow> Inl e
      | Inr p \<Rightarrow>
     (case getitem_key p ''customdata'' of
        Inl e \<Rightarrow> Inl e
      | Inr cd \<Rightarrow> getitem_index cd 0)))"

subsection \<open>Figures and the pyplot registry\<close>

record line2d =
  xdata :: "cell list"
  ydata :: "cell list"
  line_label :: string
  line_color :: string
  line_alpha :: "pyfloat option"

record figure =
  figsize :: "rat \<times> rat"
  axes_lines :: "line2d list"
  axes_title :: string
  axes_xlabel :: string
  axes_ylabel :: string
  axes_legend :: bool
  tight :: bool

text \<open>
  pyplot keeps the open figures by number, the current one last. It is the one piece
  of state the handler touches; the handler's model takes it and returns it.
\<close>

type_synonym pyplot = "(nat \<times> figure) list"

definition new_figure :: "rat \<times> rat \<Rightarrow> figure" where
  "new_figure wh =
     \<lparr>figsize = wh, axes_lines = [], axes_title = [], axes_xlabel = [], axes_ylabel = [],
      axes_legend = False, tight = False\<rparr>"

definition next_num :: "pyplot \<Rightarrow> nat" where
  "next_num st = Suc (fold max (map fst st) 0)"

text \<open>\<^verbatim>\<open>plt.subplots(figsize=...)\<close>: a new figure, made current.\<close>

definition subplots :: "rat \<times> rat \<Rightarrow> pyplot \<Rightarrow> nat \<times> pyplot" where
  "subplots wh st = (next_num st, st @ [(next_num st, new_figure wh)])"

definition with_figure :: "nat \<Rightarrow> (figure \<Rightarrow> figure) \<Rightarrow> pyplot \<Rightarrow> pyplot" where
  "with_figure num f st = map (\<lambda>(n, g). if n = num then (n, f g) else (n, g)) st"

text \<open>\<^verbatim>\<open>plt.gcf()\<close>: the current figure; pyplot opens one when there is none.\<close>

definition gcf :: "pyplot \<Rightarrow> (nat \<times> figure) \<times> pyplot" where
  "gcf st =
     (if st = [] then ((1, new_figure (32 / 5, 24 / 5)), [(1, new_figure (32 / 5, 24 / 5))])
      else (last st, st))"

definition close :: "nat \<Rightarrow> pyplot \<Rightarrow> pyplot" where
  "close num st = filter (\<lambda>(n, g). n \<noteq> num) st"

definition plot :: "cell list \<Rightarrow> cell list \<Rightarrow> string \<Rightarrow> string \<Rightarrow> pyfloat option \<Rightarrow> figure \<Rightarrow> figure" where
  "plot xs ys lbl col alpha g =
     g\<lparr>axes_lines := axes_lines g @
          [\<lparr>xdata = xs, ydata = ys, line_label = lbl, line_color = col, line_alpha = alpha\<rparr>]\<rparr>"

subsection \<open>Base64\<close>

definition b64_alphabet :: string where
  "b64_alphabet = ''ABCDEFGHIJKLMNOPQRSTUVWXYZabcdefghijklmnopqrstuvwxyz0123456789+/''"

definition b64_char :: "nat \<Rightarrow> char" where
  "b64_char n = b64_alphabet ! (n mod 64)"

fun b64encode :: "8 word list \<Rightarrow> string" where
  "b64encode [] = []"
| "b64encode [a] =
     (let n = unat a * 65536
      in [b64_char (n div 262144), b64_char (n div 4096), CHR ''='', CHR ''=''])"
| "b64encode [a, b] =
     (let n = unat a * 65536 + unat b * 256
      in [b64_char (n div 262144), b64_char (n div 4096), b64_char (n div 64), CHR ''=''])"
| "b64encode (a # b # c # rest) =
     (let n = unat a * 65536 + unat b * 256 + unat c
      in [b64_char (n div 262144), b64_char (n div 4096), b64_char (n div 64), b64_char n]
         @ b64encode rest)"

subsection \<open>The click handler\<close>

text \<open>
  What the handler reads and never assigns: the results store, and three services of
  the interpreter and of matplotlib that are taken as given functions, namely the text
  \<^verbatim>\<open>str\<close> gives an object, the text of an exception, and the PNG bytes matplotlib
  produces for a figure (or the exception it raises).
\<close>

record env =
  results :: results_store
  str_of :: "json \<Rightarrow> string"
  exn_text :: "exn \<Rightarrow> string"
  print_png :: "figure \<Rightarrow> exn + 8 word list"

datatype fragment = Div string | Img string

definition placeholder :: string where
  "placeholder = ''Click a gauge on the map to view the streamflow.''"

text \<open>Lines 101 to 109: from the store to the three-column table.\<close>

definition load_frame :: "env \<Rightarrow> json \<Rightarrow> exn + nat dataframe" where
  "load_frame e gauge_id =
     (case lookup_dataset (results e) gauge_id of
        Inl x \<Rightarrow> Inl x
      | Inr ds \<Rightarrow>
     (case dataset_getitem ds ''flow_mm_d_obs'' of
        Inl x \<Rightarrow> Inl x
      | Inr a \<Rightarrow>
     (case isel_last a ''time_step'' of
        Inl x \<Rightarrow> Inl x
      | Inr obs \<Rightarrow>
     (case dataset_getitem ds ''flow_mm_d_sim'' of
        Inl x \<Rightarrow> Inl x
      | Inr b \<Rightarrow>
     (case isel_last b ''time_step'' of
        Inl x \<Rightarrow> Inl x
      | Inr sim \<Rightarrow>
     (case dataarray_getitem obs ''date'' of
        Inl x \<Rightarrow> Inl x
      | Inr dates \<Rightarrow>
          DataFrame
            [(''date'', dates),
             (''Observed Flow (mm/d)'', da_variable obs),
             (''Simulated Flow (mm/d)'', da_variable sim)]))))))"

text \<open>
  Lines 114 to 123: title, labels and legend on the handler's figure, the layout and
  the rendering on pyplot's current figure, then the figure is closed. An exception
  leaves the registry as it is at that point.
\<close>

definition finish_figure :: "env \<Rightarrow> nat \<Rightarrow> json \<Rightarrow> pyplot \<Rightarrow> (exn + string) \<times> pyplot" where
  "finish_figure e fig_num gauge_id st3 =
     (let st4 = with_figure fig_num
                  (\<lambda>g. g\<lparr>axes_title := ''Streamflow at Gauge '' @ str_of e gauge_id\<rparr>) st3;
          st5 = with_figure fig_num (\<lambda>g. g\<lparr>axes_xlabel := ''Date''\<rparr>) st4;
          st6 = with_figure fig_num (\<lambda>g. g\<lparr>axes_ylabel := ''Flow (mm/day)''\<rparr>) st5;
          st7 = with_figure fig_num (\<lambda>g. g\<lparr>axes_legend := True\<rparr>) st6;
          (cur, st8) = gcf st7;
          st9 = with_figure (fst cur) (\<lambda>g. g\<lparr>tight := True\<rparr>) st8;
          (cur', st10) = gcf st9
      in (case print_png e (snd cur') of
            Inl x \<Rightarrow> (Inl x, st10)
          | Inr png \<Rightarrow> (Inr (b64encode png), close fig_num st10)))"

text \<open>Lines 111 to 113: the figure is opened and the two lines are drawn.\<close>

definition draw :: "env \<Rightarrow> pyplot \<Rightarrow> json \<Rightarrow> nat dataframe \<Rightarrow> (exn + string) \<times> pyplot" where
  "draw e st gauge_id df =
     (case subplots (8, 8) st of
        (fig_num, st1) \<Rightarrow>
          (case getitem_column df ''date'' of
             Inl x \<Rightarrow> (Inl x, st1)
           | Inr d1 \<Rightarrow>
               (case getitem_column df ''Observed Flow (mm/d)'' of
                  Inl x \<Rightarrow> (Inl x, st1)
                | Inr obs \<Rightarrow>
                    (case with_figure fig_num (plot d1 obs ''Observed'' ''black'' None) st1 of
                       st2 \<Rightarrow>
                         (case getitem_column df ''date'' of
                            Inl x \<Rightarrow> (Inl x, st2)
                          | Inr d2 \<Rightarrow>
                              (case getitem_column df ''Simulated Flow (mm/d)'' of
                                 Inl x \<Rightarrow> (Inl x, st2)
                               | Inr sim \<Rightarrow>
                                   finish_figure e fig_num gauge_id
                                     (with_figure fig_num
                                        (plot d2 sim ''Simulated'' ''blue'' (Some lit_0_7))
                                        st2)))))))"

text \<open>Lines 100 to 127: the guarded block and its handler.\<close>

definition render_or_error :: "env \<Rightarrow> pyplot \<Rightarrow> json \<Rightarrow> (exn + string) \<times> pyplot" where
  "render_or_error e st gauge_id =
     (case load_frame e gauge_id of
        Inl x \<Rightarrow> (Inl x, st)
      | Inr df \<Rightarrow> draw e st gauge_id df)"

definition error_text :: "env \<Rightarrow> json \<Rightarrow> exn \<Rightarrow> string" where
  "error_text e gauge_id x =
     ''Error loading streamflow for gauge '' @ str_of e gauge_id @ '': '' @ exn_text e x"

text \<open>
  Lines 94 to 127. The result is the fragment returned, or the exception that leaves
  the handler.
\<close>

definition update_plot :: "env \<Rightarrow> pyplot \<Rightarrow> json \<Rightarrow> (exn + fragment) \<times> pyplot" where
  "update_plot e st clickData =
     (if \<not> truthy clickData then (Inr (Div placeholder), st)
      else
        (case extract_gauge_id clickData of
           Inl x \<Rightarrow> (Inl x, st)
         | Inr gauge_id \<Rightarrow>
             (case render_or_error e st gauge_id of
                (Inr encoded, st') \<Rightarrow> (Inr (Img (''data:image/png;base64,'' @ encoded)), st')
              | (Inl x, st') \<Rightarrow> (Inr (Div (error_text e gauge_id x)), st'))))"

text \<open>The figure the handler draws for a title and three columns.\<close>

definition streamflow_figure :: "string \<Rightarrow> cell list \<Rightarrow> cell list \<Rightarrow> cell list \<Rightarrow> figure" where
  "streamflow_figure gauge_text dates obs sim =
     \<lparr>figsize = (8, 8),
      axes_lines =
        [\<lparr>xdata = dates, ydata = obs, line_label = ''Observed'', line_color = ''black'',
          line_alpha = None\<rparr>,
         \<lparr>xdata = dates, ydata = sim, line_label = ''Simulated'', line_color = ''blue'',
          line_alpha = Some lit_0_7\<rparr>],
      axes_title = ''Streamflow at Gauge '' @ gauge_text,
      axes_xlabel = ''Date'',
      axes_ylabel = ''Flow (mm/day)'',
      axes_legend = True,
      tight = True\<rparr>"


text \<open>
  What the drawing returns, read off without the registry: the three columns are looked
  up, the figure of \<open>streamflow_figure\<close> is rendered, the PNG is encoded.
\<close>

definition draw_outcome :: "env \<Rightarrow> json \<Rightarrow> nat dataframe \<Rightarrow> exn + string" where
  "draw_outcome e gauge_id df =
     (case getitem_column df ''date'' of
        Inl x \<Rightarrow> Inl x
      | Inr d \<Rightarrow>
     (case getitem_column df ''Observed Flow (mm/d)'' of
        Inl x \<Rightarrow> Inl x
      | Inr obs \<Rightarrow>
     (case getitem_column df ''Simulated Flow (mm/d)'' of
        Inl x \<Rightarrow> Inl x
      | Inr sim \<Rightarrow>
     (case print_png e (streamflow_figure (str_of e gauge_id) d obs sim) of
        Inl x \<Rightarrow> Inl x
      | Inr png \<Rightarrow> Inr (b64encode png)))))"

text \<open>The handler's result, likewise.\<close>

definition outcome :: "env \<Rightarrow> json \<Rightarrow> exn + fragment" where
  "outcome e clickData =
     (if \<not> truthy clickData then Inr (Div placeholder)
      else
        (case extract_gauge_id clickData of
           Inl x \<Rightarrow> Inl x
         | Inr gauge_id \<Rightarrow>
             (case load_frame e gauge_id of
                Inl x \<Rightarrow> Inr (Div (error_text e gauge_id x))
              | Inr df \<Rightarrow>
                  (case draw_outcome e gauge_id df of
                     Inl x \<Rightarrow> Inr (Div (error_text e gauge_id x))
                   | Inr encoded \<Rightarrow> Inr (Img (''data:image/png;base64,'' @ encoded))))))"

subsection \<open>Layouts of a station's dataset, and a small store\<close>

text \<open>
  Two layouts of the flow variables. In the first the series runs along \<^verbatim>\<open>date\<close>
  and every date holds \<open>t\<close> time steps; \<^verbatim>\<open>date\<close> is a coordinate along its own
  dimension. In the second the series runs along \<^verbatim>\<open>time_step\<close> alone.
\<close>

definition grid :: "cell list list \<Rightarrow> nat \<Rightarrow> variable" where
  "grid rows t =
     \<lparr>dims = [''date'', ''time_step''], shape = [length rows, t],
      data = Arr (map (\<lambda>r. Arr (map Scalar r)) rows)\<rparr>"

definition date_axis :: "cell list \<Rightarrow> variable" where
  "date_axis dates = \<lparr>dims = [''date''], shape = [length dates], data = Arr (map Scalar dates)\<rparr>"

definition series :: "cell list \<Rightarrow> variable" where
  "series xs = \<lparr>dims = [''time_step''], shape = [length xs], data = Arr (map Scalar xs)\<rparr>"

text \<open>A click as the map delivers it, carrying the identifier in \<^verbatim>\<open>customdata\<close>.\<close>

definition click_on :: "json \<Rightarrow> json" where
  "click_on gauge_id = JDict [(''points'', JList [JDict [(''customdata'', JList [gauge_id])]])]"

text \<open>
  A store with one station whose series has two dates and one time step per date. Its
  renderer knows the chart of both dates and raises on any other figure.
\<close>

definition two_day_dataset :: dataset where
  "two_day_dataset =
     \<lparr>data_vars =
        [(''flow_mm_d_obs'', grid [[CFloat (Fin 1)], [CFloat (Fin 2)]] 1),
         (''flow_mm_d_sim'', grid [[CFloat (Fin 3)], [CFloat (Fin 4)]] 1)],
      coords = [(''date'', date_axis [CDate 0, CDate 1])]\<rparr>"

definition two_day_env :: env where
  "two_day_env =
     \<lparr>results = [KStr ''a'' \<mapsto> [''1D'' \<mapsto> [''xr'' \<mapsto> two_day_dataset]]],
      str_of = (\<lambda>j. ''a''),
      exn_text = (\<lambda>x. ''failed''),
      print_png =
        (\<lambda>g. if g = streamflow_figure ''a'' [CDate 0, CDate 1]
                         [CFloat (Fin 1), CFloat (Fin 2)] [CFloat (Fin 3), CFloat (Fin 4)]
             then Inr [137, 80, 78, 71]
             else Inl (RuntimeError ''another chart''))\<rparr>"

text \<open>
  A store without stations; \<^verbatim>\<open>str\<close> of a string is the string, every exception
  reads the same, and the renderer raises.
\<close>

definition empty_env :: env where
  "empty_env =
     \<lparr>results = Map.empty,
      str_of = (\<lambda>j. case j of JStr s \<Rightarrow> s | _ \<Rightarrow> ''?''),
      exn_text = (\<lambda>x. ''not found''),
      print_png = (\<lambda>g. Inl (RuntimeError ''no renderer''))\<rparr>"

text \<open>A station table of three rows, with the columns the map figure asks for.\<close>

definition three_stations :: "nat dataframe" where
  "three_stations =
     \<lparr>index = [0, 1, 2],
      columns =
        [(''gauge_id'', [CStr ''a'', CStr ''b'', CStr ''c'']),
         (''lat'', [CFloat (Fin 45), CFloat (Fin 46), CFloat (Fin 47)]),
         (''long'', [CFloat (Fin (-70)), CFloat (Fin (-71)), CFloat (Fin (-72))]),
         (''casr_daymet_era5_NSE'', [CFloat (Fin (9 / 10)), CFloat (Fin (3 / 10)), CFloat (Fin (17 / 20))])]\<rparr>"

section \<open>Properties\<close>

subsection \<open>Table operations\<close>

lemma map_of_replace:
  "map_of (map (\<lambda>(n, c). if n = name then (n, f c) else (n, c)) xs) m =
     (if m = name then map_option f (map_of xs name) else map_of xs m)"
  by (induction xs) auto

lemma names_replace:
  "map fst (map (\<lambda>(n, c). if n = name then (n, f c) else (n, c)) xs) = map fst xs"
  by (induction xs) auto

lemma setitem_scalar_lookup:
  "map_of (columns (setitem_scalar df name v)) m =
     (if m = name then Some (replicate (length (index df)) v) else map_of (columns df) m)"
proof (cases "name \<in> set (map fst (columns df))")
  case True
  then obtain c where "map_of (columns df) name = Some c"
    by (metis map_of_eq_None_iff not_Some_eq set_map)
  with True show ?thesis
    using map_of_replace [of name "\<lambda>_. replicate (length (index df)) v" "columns df" m]
    by (simp add: setitem_scalar_def Let_def)
next
  case False
  then have "map_of (columns df) name = None"
    by (simp add: map_of_eq_None_iff)
  with False show ?thesis
    by (auto simp: setitem_scalar_def Let_def map_add_def split: option.splits)
qed

lemma setitem_scalar_names:
  "map fst (columns (setitem_scalar df name v)) =
     (if name \<in> set (map fst (columns df)) then map fst (columns df)
      else map fst (columns df) @ [name])"
  using names_replace [of name "\<lambda>_. replicate (length (index df)) v" "columns df"]
  by (simp add: setitem_scalar_def Let_def)

lemma setitem_scalar_index: "index (setitem_scalar df name v) = index df"
  by (simp add: setitem_scalar_def Let_def)

lemma loc_setitem_lookup:
  "name \<in> set (map fst (columns df)) \<Longrightarrow>
   map_of (columns (loc_setitem df sel name v)) m =
     (if m = name
      then map_option (\<lambda>c. map2 (\<lambda>b x. if b then v else x) sel c) (map_of (columns df) name)
      else map_of (columns df) m)"
  using map_of_replace [of name "\<lambda>c. map2 (\<lambda>b x. if b then v else x) sel c" "columns df" m]
  by (simp add: loc_setitem_def)

lemma loc_setitem_names:
  "name \<in> set (map fst (columns df)) \<Longrightarrow>
   map fst (columns (loc_setitem df sel name v)) = map fst (columns df)"
  using names_replace [of name "\<lambda>c. map2 (\<lambda>b x. if b then v else x) sel c" "columns df"]
  by (simp add: loc_setitem_def)

lemma loc_setitem_index: "index (loc_setitem df sel name v) = index df"
  by (simp add: loc_setitem_def)

lemma traverse_cell_gt:
  "traverse (cell_gt t) col =
     (if list_all numeric col then Inr (map (\<lambda>c. float_gt (score_of c) t) col) else Inl TypeError)"
  by (induction col) (auto simp: cell_gt_def numeric_def score_of_def split: option.splits)

lemma traverse_cell_le:
  "traverse (cell_le t) col =
     (if list_all numeric col then Inr (map (\<lambda>c. float_le (score_of c) t) col) else Inl TypeError)"
  by (induction col) (auto simp: cell_le_def numeric_def score_of_def split: option.splits)

lemma mask_between_eq:
  "mask_between df lo hi =
     (case map_of (columns df) score_column of
        None \<Rightarrow> Inl (KeyError (JStr score_column))
      | Some col \<Rightarrow>
          if list_all numeric col
          then Inr (map (\<lambda>c. float_gt (score_of c) lo \<and> float_le (score_of c) hi) col)
          else Inl TypeError)"
  by (simp add: mask_between_def getitem_column_def series_gt_def series_le_def mask_and_def
      traverse_cell_gt traverse_cell_le zip_map_map zip_same_conv_map comp_def split: option.splits) 

lemma mask_above_eq:
  "mask_above df lo =
     (case map_of (columns df) score_column of
        None \<Rightarrow> Inl (KeyError (JStr score_column))
      | Some col \<Rightarrow>
          if list_all numeric col
          then Inr (map (\<lambda>c. float_gt (score_of c) lo) col)
          else Inl TypeError)"
  by (simp add: mask_above_def getitem_column_def series_gt_def 
      traverse_cell_gt  split: option.splits) 

lemma score_column_not_NSE: "score_column \<noteq> ''NSE''"
  by (simp add: score_column_def)

lemma NSE_in_setitem: "''NSE'' \<in> set (map fst (columns (setitem_scalar df ''NSE'' v)))"
  by (simp add: setitem_scalar_names)

lemma add_nse_category_eq:
  "add_nse_category df =
     (case map_of (columns df) score_column of
        None \<Rightarrow> Inl (KeyError (JStr score_column))
      | Some sc \<Rightarrow>
          if list_all numeric sc
          then Inr (loc_setitem
                 (loc_setitem
                   (loc_setitem (setitem_scalar df ''NSE'' (CStr label_not_satisfactory))
                      (sel1 sc) ''NSE'' (CStr label_satisfactory))
                   (sel2 sc) ''NSE'' (CStr label_good))
                 (sel3 sc) ''NSE'' (CStr label_very_good))
          else Inl TypeError)"
proof -
  let ?df1 = "setitem_scalar df ''NSE'' (CStr label_not_satisfactory)"
  have l1: "map_of (columns ?df1) score_column = map_of (columns df) score_column"
    by (simp add: setitem_scalar_lookup score_column_not_NSE)
  have n1: "''NSE'' \<in> set (map fst (columns ?df1))"
    by (rule NSE_in_setitem)
  have l2: "map_of (columns (loc_setitem ?df1 s ''NSE'' v)) score_column
              = map_of (columns df) score_column" for s v
    using loc_setitem_lookup [OF n1, of s v score_column] l1
    by (simp add: score_column_not_NSE)
  have n2: "''NSE'' \<in> set (map fst (columns (loc_setitem ?df1 s ''NSE'' v)))" for s v
    using loc_setitem_names [OF n1, of s v] n1 by simp
  have l3: "map_of (columns (loc_setitem (loc_setitem ?df1 s ''NSE'' v) s' ''NSE'' v')) score_column
              = map_of (columns df) score_column" for s v s' v'
    using loc_setitem_lookup [OF n2, of s v s' v' score_column] l2 [of s v]
    by (simp add: score_column_not_NSE)
  show ?thesis
    by (simp add: add_nse_category_def Let_def mask_between_eq mask_above_eq l1 l2 l3
        sel1_def sel2_def sel3_def split: option.splits)
qed

lemma overwrite_chain:
  assumes "length sc = n"
  shows "map2 (\<lambda>b x. if b then CStr label_very_good else x) (sel3 sc)
           (map2 (\<lambda>b x. if b then CStr label_good else x) (sel2 sc)
             (map2 (\<lambda>b x. if b then CStr label_satisfactory else x) (sel1 sc)
               (replicate n (CStr label_not_satisfactory))))
         = map (\<lambda>c. CStr (row_label (score_of c))) sc"
  using assms
  by (auto simp: list_eq_iff_nth_eq sel1_def sel2_def sel3_def row_label_def Let_def)

lemma add_nse_category_NSE:
  assumes ok: "add_nse_category df = Inr df'"
    and sc: "map_of (columns df) score_column = Some sc"
    and len: "length sc = length (index df)"
  shows "map_of (columns df') ''NSE'' = Some (map (\<lambda>c. CStr (row_label (score_of c))) sc)"
proof -
  let ?df1 = "setitem_scalar df ''NSE'' (CStr label_not_satisfactory)"
  let ?df2 = "loc_setitem ?df1 (sel1 sc) ''NSE'' (CStr label_satisfactory)"
  let ?df3 = "loc_setitem ?df2 (sel2 sc) ''NSE'' (CStr label_good)"
  have num: "list_all numeric sc" and df': "df' = loc_setitem ?df3 (sel3 sc) ''NSE'' (CStr label_very_good)"
    using ok sc by (auto simp: add_nse_category_eq split: if_splits)
  have n1: "''NSE'' \<in> set (map fst (columns ?df1))"
    by (rule NSE_in_setitem)
  have n2: "''NSE'' \<in> set (map fst (columns ?df2))"
    using loc_setitem_names [OF n1] n1 by simp
  have n3: "''NSE'' \<in> set (map fst (columns ?df3))"
    using loc_setitem_names [OF n2] n2 by simp
  show ?thesis
    unfolding df'
    by (simp add: loc_setitem_lookup [OF n3] loc_setitem_lookup [OF n2] loc_setitem_lookup [OF n1]
        setitem_scalar_lookup overwrite_chain [OF len])
qed

lemma add_nse_category_frame:
  assumes ok: "add_nse_category df = Inr df'"
  shows "index df' = index df"
    and "map fst (columns df') =
           (if ''NSE'' \<in> set (map fst (columns df)) then map fst (columns df)
            else map fst (columns df) @ [''NSE''])"
    and "name \<noteq> ''NSE'' \<Longrightarrow> map_of (columns df') name = map_of (columns df) name"
proof -
  obtain sc where sc: "map_of (columns df) score_column = Some sc"
    using ok by (auto simp: add_nse_category_eq split: option.splits)
  let ?df1 = "setitem_scalar df ''NSE'' (CStr label_not_satisfactory)"
  let ?df2 = "loc_setitem ?df1 (sel1 sc) ''NSE'' (CStr label_satisfactory)"
  let ?df3 = "loc_setitem ?df2 (sel2 sc) ''NSE'' (CStr label_good)"
  have df': "df' = loc_setitem ?df3 (sel3 sc) ''NSE'' (CStr label_very_good)"
    using ok sc by (auto simp: add_nse_category_eq split: if_splits)
  have n1: "''NSE'' \<in> set (map fst (columns ?df1))"
    by (rule NSE_in_setitem)
  have n2: "''NSE'' \<in> set (map fst (columns ?df2))"
    using loc_setitem_names [OF n1] n1 by simp
  have n3: "''NSE'' \<in> set (map fst (columns ?df3))"
    using loc_setitem_names [OF n2] n2 by simp
  show "index df' = index df"
    unfolding df' by (simp add: loc_setitem_index setitem_scalar_index)
  show "map fst (columns df') =
           (if ''NSE'' \<in> set (map fst (columns df)) then map fst (columns df)
            else map fst (columns df) @ [''NSE''])"
    unfolding df'
    by (simp only: loc_setitem_names [OF n3] loc_setitem_names [OF n2] loc_setitem_names [OF n1]
        setitem_scalar_names)
  show "map_of (columns df') name = map_of (columns df) name" if "name \<noteq> ''NSE''"
    unfolding df' using that
    by (simp add: loc_setitem_lookup [OF n3] loc_setitem_lookup [OF n2] loc_setitem_lookup [OF n1]
        setitem_scalar_lookup)
qed

lemma row_label_cases:
  "row_label s \<in> {label_not_satisfactory, label_satisfactory, label_good, label_very_good}"
  by (simp add: row_label_def Let_def)

lemma row_label_ranges:
  "float_le s lit_0_5 \<Longrightarrow> row_label s = label_not_satisfactory"
  "float_gt s lit_0_5 \<Longrightarrow> float_le s lit_0_7 \<Longrightarrow> row_label s = label_satisfactory"
  "float_gt s lit_0_7 \<Longrightarrow> float_le s lit_0_8 \<Longrightarrow> row_label s = label_good"
  "float_gt s lit_0_8 \<Longrightarrow> row_label s = label_very_good"
  "row_label NaN = label_not_satisfactory"
  by (cases s; simp add: row_label_def Let_def lit_0_5_def lit_0_7_def lit_0_8_def)+


subsection \<open>The derived category column\<close>

lemma wf_column_length:
  assumes "wf_dataframe df" and "map_of (columns df) name = Some c"
  shows "length c = length (index df)"
proof -
  have "(name, c) \<in> set (columns df)"
    using assms(2) by (rule map_of_SomeD)
  with assms(1) show ?thesis
    by (auto simp: wf_dataframe_def list_all_iff)
qed

lemma getitem_column_Inr:
  "getitem_column df name = Inr c \<longleftrightarrow> map_of (columns df) name = Some c"
  by (simp add: getitem_column_def split: option.splits)





text \<open>
  Claim C9. The categorisation is total on numeric score columns, NaN included: when
  the score column exists and holds numbers, the four statements raise nothing, every
  row ends with one of the four labels, and a row whose score is NaN keeps the default
  label of line 29.
\<close>

theorem nse_category_total:
  assumes wf: "wf_dataframe df"
    and sc: "getitem_column df score_column = Inr sc"
    and num: "list_all numeric sc"
  shows "\<exists>df' nse. add_nse_category df = Inr df' \<and> getitem_column df' ''NSE'' = Inr nse \<and>
           length nse = length (index df) \<and>
           (\<forall>i < length nse.
              \<exists>l \<in> {label_not_satisfactory, label_satisfactory, label_good, label_very_good}.
                nse ! i = CStr l) \<and>
           (\<forall>i < length nse. sc ! i = CFloat NaN \<longrightarrow> nse ! i = CStr label_not_satisfactory)"
proof -
  have sc': "map_of (columns df) score_column = Some sc"
    using sc by (simp add: getitem_column_Inr)
  have len: "length sc = length (index df)"
    using wf sc' by (rule wf_column_length)
  obtain df' where ok: "add_nse_category df = Inr df'"
    using sc' num by (simp add: add_nse_category_eq)
  let ?nse = "map (\<lambda>c. CStr (row_label (score_of c))) sc"
  have nse: "getitem_column df' ''NSE'' = Inr ?nse"
    using add_nse_category_NSE [OF ok sc' len] by (simp add: getitem_column_Inr)
  have one: "\<exists>l \<in> {label_not_satisfactory, label_satisfactory, label_good, label_very_good}.
               ?nse ! i = CStr l" if "i < length ?nse" for i
    using that row_label_cases [of "score_of (sc ! i)"] by simp
  have nan: "?nse ! i = CStr label_not_satisfactory"
    if "i < length ?nse" and "sc ! i = CFloat NaN" for i
    using that by (simp add: score_of_def row_label_ranges(5))
  show ?thesis
    using ok nse len one nan
    by (intro exI [of _ df'] exI [of _ ?nse]) simp
qed

theorem nse_category_total_witness:
  "add_nse_category
     \<lparr>index = [0, 1 :: nat],
      columns = [(''casr_daymet_era5_NSE'', [CFloat NaN, CInt 1])]\<rparr>
   = Inr \<lparr>index = [0, 1],
          columns = [(''casr_daymet_era5_NSE'', [CFloat NaN, CInt 1]),
                     (''NSE'', [CStr label_not_satisfactory, CStr label_very_good])]\<rparr>"
proof -
  let ?sc = "[CFloat NaN, CInt 1]"
  let ?df = "\<lparr>index = [0, 1 :: nat], columns = [(''casr_daymet_era5_NSE'', ?sc)]\<rparr>"
  have wf: "wf_dataframe ?df"
    by (simp add: wf_dataframe_def)
  have sc: "getitem_column ?df score_column = Inr ?sc"
    by (simp add: getitem_column_def score_column_def)
  have num: "list_all numeric ?sc"
    by (simp add: numeric_def)
  obtain df' nse where ok: "add_nse_category ?df = Inr df'"
    and nse: "getitem_column df' ''NSE'' = Inr nse"
    and len: "length nse = 2"
    and nan: "\<forall>i < length nse. ?sc ! i = CFloat NaN \<longrightarrow> nse ! i = CStr label_not_satisfactory"
    using nse_category_total [OF wf sc num] by auto
  have "nse ! 0 = CStr label_not_satisfactory"
    using nan len by simp
  moreover have "add_nse_category ?df =
      Inr \<lparr>index = [0, 1],
           columns = [(''casr_daymet_era5_NSE'', ?sc),
                      (''NSE'', [CStr label_not_satisfactory, CStr label_very_good])]\<rparr>"
    by (simp add: add_nse_category_eq score_column_def numeric_def setitem_scalar_def
        loc_setitem_def sel1_def sel2_def sel3_def score_of_def lit_0_5_def lit_0_7_def lit_0_8_def)
  ultimately show ?thesis
    using ok nse by simp
qed

text \<open>
  Claim C8, as stated, fails on a table that already has a column named \<^verbatim>\<open>NSE\<close>:
  line 29 replaces that column where it stands, so no column is added and the cells of
  a column the input had are changed.
\<close>

theorem add_nse_category_overwrites_existing_NSE:
  "wf_dataframe
     \<lparr>index = [0 :: nat],
      columns = [(''casr_daymet_era5_NSE'', [CFloat (Fin (9 / 10))]),
                 (''NSE'', [CStr ''old''])]\<rparr> \<and>
   add_nse_category
     \<lparr>index = [0 :: nat],
      columns = [(''casr_daymet_era5_NSE'', [CFloat (Fin (9 / 10))]),
                 (''NSE'', [CStr ''old''])]\<rparr>
   = Inr \<lparr>index = [0],
          columns = [(''casr_daymet_era5_NSE'', [CFloat (Fin (9 / 10))]),
                     (''NSE'', [CStr ''Very Good: NSE > 0.8''])]\<rparr> \<and>
   getitem_column
     \<lparr>index = [0 :: nat],
      columns = [(''casr_daymet_era5_NSE'', [CFloat (Fin (9 / 10))]),
                 (''NSE'', [CStr ''Very Good: NSE > 0.8''])]\<rparr> ''NSE''
   \<noteq> getitem_column
       \<lparr>index = [0 :: nat],
        columns = [(''casr_daymet_era5_NSE'', [CFloat (Fin (9 / 10))]),
                   (''NSE'', [CStr ''old''])]\<rparr> ''NSE''"
  by (simp add: add_nse_category_eq score_column_def numeric_def setitem_scalar_def
      loc_setitem_def sel1_def sel2_def sel3_def score_of_def lit_0_5_def lit_0_7_def lit_0_8_def
      label_not_satisfactory_def label_satisfactory_def label_good_def label_very_good_def
      wf_dataframe_def getitem_column_def)

text \<open>
  Claim C8, amended. The preparation sets exactly one column, \<^verbatim>\<open>NSE\<close>: it is
  appended as the last column when the input has no column of that name and replaced
  in place when it has one. The row labels and their order are those of the input, the
  columns keep their order, and every column other than \<^verbatim>\<open>NSE\<close> has the cells
  it had.
\<close>

theorem add_nse_category_frame_effect:
  assumes ok: "add_nse_category df = Inr df'"
  shows "index df' = index df \<and>
         map fst (columns df') =
           (if ''NSE'' \<in> set (map fst (columns df)) then map fst (columns df)
            else map fst (columns df) @ [''NSE'']) \<and>
         (\<forall>name. name \<noteq> ''NSE'' \<longrightarrow> getitem_column df' name = getitem_column df name)"
  using add_nse_category_frame [OF ok]
  by (simp add: getitem_column_def)

theorem add_nse_category_frame_effect_witness:
  "add_nse_category
     \<lparr>index = [7, 3 :: nat],
      columns = [(''gauge_id'', [CStr ''a'', CStr ''b'']),
                 (''casr_daymet_era5_NSE'', [CFloat (Fin (9 / 10)), CFloat (Fin (1 / 10))])]\<rparr>
   = Inr \<lparr>index = [7, 3],
          columns = [(''gauge_id'', [CStr ''a'', CStr ''b'']),
                     (''casr_daymet_era5_NSE'', [CFloat (Fin (9 / 10)), CFloat (Fin (1 / 10))]),
                     (''NSE'', [CStr label_very_good, CStr label_not_satisfactory])]\<rparr> \<and>
   getitem_column
     \<lparr>index = [7, 3 :: nat],
      columns = [(''gauge_id'', [CStr ''a'', CStr ''b'']),
                 (''casr_daymet_era5_NSE'', [CFloat (Fin (9 / 10)), CFloat (Fin (1 / 10))]),
                 (''NSE'', [CStr label_very_good, CStr label_not_satisfactory])]\<rparr> ''gauge_id''
   = Inr [CStr ''a'', CStr ''b'']"
proof -
  let ?df = "\<lparr>index = [7, 3 :: nat],
              columns = [(''gauge_id'', [CStr ''a'', CStr ''b'']),
                         (''casr_daymet_era5_NSE'', [CFloat (Fin (9 / 10)), CFloat (Fin (1 / 10))])]\<rparr>"
  let ?df' = "\<lparr>index = [7, 3 :: nat],
               columns = [(''gauge_id'', [CStr ''a'', CStr ''b'']),
                          (''casr_daymet_era5_NSE'', [CFloat (Fin (9 / 10)), CFloat (Fin (1 / 10))]),
                          (''NSE'', [CStr label_very_good, CStr label_not_satisfactory])]\<rparr>"
  have ok: "add_nse_category ?df = Inr ?df'"
    by (simp add: add_nse_category_eq score_column_def numeric_def setitem_scalar_def
        loc_setitem_def sel1_def sel2_def sel3_def score_of_def lit_0_5_def lit_0_7_def lit_0_8_def)
  have "getitem_column ?df ''gauge_id'' = Inr [CStr ''a'', CStr ''b'']"
    by (simp add: getitem_column_def)
  then show ?thesis
    using ok add_nse_category_frame_effect [OF ok] by simp
qed

subsection \<open>The pyplot registry\<close>

lemma fold_max_ge: "a \<le> fold max xs (a :: nat)"
  by (induction xs arbitrary: a) (auto intro: order_trans [OF max.cobounded2])

lemma fold_max_upper: "m \<in> set xs \<Longrightarrow> m \<le> fold max xs (a :: nat)"
proof (induction xs arbitrary: a)
  case Nil
  then show ?case by simp
next
  case (Cons x xs)
  show ?case
  proof (cases "m = x")
    case True
    have "x \<le> max x a" by simp
    also have "\<dots> \<le> fold max xs (max x a)" by (rule fold_max_ge)
    finally show ?thesis using True by simp
  next
    case False
    with Cons show ?thesis by simp
  qed
qed

lemma next_num_fresh: "next_num st \<notin> fst ` set st"
proof
  assume "next_num st \<in> fst ` set st"
  then have "next_num st \<in> set (map fst st)" by simp
  then have "next_num st \<le> fold max (map fst st) 0" by (rule fold_max_upper)
  then show False by (simp add: next_num_def)
qed

lemma with_figure_fresh: "n \<notin> fst ` set st \<Longrightarrow> with_figure n f st = st"
  by (induction st) (auto simp: with_figure_def)

lemma with_figure_last:
  "n \<notin> fst ` set st \<Longrightarrow> with_figure n f (st @ [(n, g)]) = st @ [(n, f g)]"
  using with_figure_fresh [of n st f] by (simp add: with_figure_def)

lemma gcf_snoc: "gcf (st @ [x]) = (x, st @ [x])"
  by (simp add: gcf_def)

lemma close_last: "n \<notin> fst ` set st \<Longrightarrow> close n (st @ [(n, g)]) = st"
  by (induction st) (auto simp: close_def)

lemma finish_figure_eq:
  assumes "n \<notin> fst ` set st"
  shows "finish_figure e n gauge_id (st @ [(n, g)]) =
     (case print_png e
             (g\<lparr>axes_title := ''Streamflow at Gauge '' @ str_of e gauge_id,
                axes_xlabel := ''Date'', axes_ylabel := ''Flow (mm/day)'',
                axes_legend := True, tight := True\<rparr>) of
        Inl x \<Rightarrow>
          (Inl x, st @ [(n, g\<lparr>axes_title := ''Streamflow at Gauge '' @ str_of e gauge_id,
                axes_xlabel := ''Date'', axes_ylabel := ''Flow (mm/day)'',
                axes_legend := True, tight := True\<rparr>)])
      | Inr png \<Rightarrow> (Inr (b64encode png), st))"
  by (simp add: finish_figure_def Let_def with_figure_last [OF assms] gcf_snoc
      close_last [OF assms] split: sum.splits)

lemma draw_fst: "fst (draw e st gauge_id df) = draw_outcome e gauge_id df"
  by (simp add: draw_def draw_outcome_def subplots_def with_figure_last [OF next_num_fresh]
      finish_figure_eq [OF next_num_fresh] plot_def new_figure_def streamflow_figure_def
      split: sum.splits)

lemma draw_snd_ok: "fst (draw e st gauge_id df) = Inr encoded \<Longrightarrow> snd (draw e st gauge_id df) = st"
  by (auto simp: draw_def subplots_def with_figure_last [OF next_num_fresh]
      finish_figure_eq [OF next_num_fresh] split: sum.splits)

lemma render_or_error_fst:
  "fst (render_or_error e st gauge_id) =
     (case load_frame e gauge_id of Inl x \<Rightarrow> Inl x | Inr df \<Rightarrow> draw_outcome e gauge_id df)"
  by (simp add: render_or_error_def draw_fst split: sum.splits)

lemma render_or_error_snd_ok:
  "fst (render_or_error e st gauge_id) = Inr encoded \<Longrightarrow> snd (render_or_error e st gauge_id) = st"
  by (auto simp: render_or_error_def draw_snd_ok split: sum.splits)

lemma fst_case_outcome:
  "fst (case p of (Inr a, s) \<Rightarrow> (F a, s) | (Inl x, s) \<Rightarrow> (G x, s)) =
     (case fst p of Inr a \<Rightarrow> F a | Inl x \<Rightarrow> G x)"
  by (cases p; cases "fst p"; auto)

lemma snd_case_outcome:
  "snd (case p of (Inr a, s) \<Rightarrow> (F a, s) | (Inl x, s) \<Rightarrow> (G x, s)) = snd p"
  by (cases p; cases "fst p"; auto)

lemma update_plot_fst: "fst (update_plot e st clickData) = outcome e clickData"
  by (simp add: update_plot_def outcome_def fst_case_outcome render_or_error_fst
      split: sum.splits)

lemma update_plot_snd:
  "snd (update_plot e st clickData) =
     (if \<not> truthy clickData then st
      else (case extract_gauge_id clickData of
              Inl x \<Rightarrow> st
            | Inr gauge_id \<Rightarrow> snd (render_or_error e st gauge_id)))"
  by (simp add: update_plot_def snd_case_outcome split: sum.splits)


lemma extract_truthy: "extract_gauge_id clickData = Inr g \<Longrightarrow> truthy clickData"
  by (cases clickData) (auto simp: extract_gauge_id_def split: option.splits)

lemma extract_click_on: "extract_gauge_id (click_on g) = Inr g"
  by (simp add: click_on_def extract_gauge_id_def py_index_def)

lemma error_text_not_placeholder: "error_text e g x \<noteq> placeholder"
  by (simp add: error_text_def placeholder_def)

subsection \<open>The click handler\<close>

text \<open>
  Claim C5. Whatever the loaded datasets hold, and whatever figures pyplot holds, a
  null click event returns the same static placeholder fragment and changes nothing.
\<close>

theorem idle_click_placeholder:
  "update_plot e st JNone = (Inr (Div ''Click a gauge on the map to view the streamflow.''), st)"
  by (simp add: update_plot_def placeholder_def)

text \<open>
  Claim C10. The handler returns the placeholder fragment exactly when the payload is
  falsy: a null event, and also an empty mapping, an empty list or an empty string. A
  truthy payload goes on to the extraction of the identifier at line 98, and from there
  to the guarded block.
\<close>

theorem placeholder_iff_falsy:
  "(fst (update_plot e st clickData) = Inr (Div placeholder)) = (\<not> truthy clickData) \<and>
   \<not> truthy JNone \<and> \<not> truthy (JDict []) \<and> \<not> truthy (JList []) \<and> \<not> truthy (JStr []) \<and>
   (truthy clickData \<longrightarrow>
      update_plot e st clickData =
        (case extract_gauge_id clickData of
           Inl x \<Rightarrow> (Inl x, st)
         | Inr gauge_id \<Rightarrow>
             (case render_or_error e st gauge_id of
                (Inr encoded, st') \<Rightarrow> (Inr (Img (''data:image/png;base64,'' @ encoded)), st')
              | (Inl x, st') \<Rightarrow> (Inr (Div (error_text e gauge_id x)), st'))))"
proof -
  have "fst (update_plot e st clickData) \<noteq> Inr (Div placeholder)" if "truthy clickData"
    using that error_text_not_placeholder
    by (auto simp: update_plot_fst outcome_def split: sum.splits)
  moreover have "fst (update_plot e st clickData) = Inr (Div placeholder)" if "\<not> truthy clickData"
    using that by (simp add: update_plot_def)
  ultimately show ?thesis
    by (auto simp: update_plot_def)
qed

theorem placeholder_iff_falsy_witness:
  "fst (update_plot empty_env [] (JDict [])) = Inr (Div placeholder) \<and>
   update_plot empty_env [] (JInt 1) = (Inl TypeError, [])"
  using placeholder_iff_falsy [of empty_env "[]" "JDict []"]
    placeholder_iff_falsy [of empty_env "[]" "JInt 1"]
  by (simp add: extract_gauge_id_def)



text \<open>
  Claim C2, as stated, fails: the identifier is extracted at line 98, before the
  guarded block opens at line 100. A truthy payload whose list of points is empty
  raises \<^verbatim>\<open>IndexError\<close> there, and the exception leaves the handler.
\<close>

theorem extraction_failure_propagates:
  "truthy (JDict [(''points'', JList [])]) \<and>
   update_plot empty_env [] (JDict [(''points'', JList [])]) = (Inl IndexError, [])"
  by (simp add: update_plot_def extract_gauge_id_def py_index_def)

text \<open>
  Claim C2, amended. For every payload from which the identifier can be extracted, the
  handler returns a fragment and no exception leaves it: a failure of the results
  store lookup or of the series extraction, and a failure while the chart is drawn and
  rendered, each become the text fragment that names the identifier and the failure
  message; otherwise the image fragment is returned.
\<close>

theorem block_failures_caught:
  assumes "extract_gauge_id clickData = Inr g"
  shows "(\<exists>f. fst (update_plot e st clickData) = Inr f) \<and>
         (\<forall>x. load_frame e g = Inl x \<longrightarrow>
            update_plot e st clickData =
              (Inr (Div (''Error loading streamflow for gauge '' @ str_of e g @ '': ''
                          @ exn_text e x)), st)) \<and>
         (\<forall>df x. load_frame e g = Inr df \<and> fst (draw e st g df) = Inl x \<longrightarrow>
            fst (update_plot e st clickData) =
              Inr (Div (''Error loading streamflow for gauge '' @ str_of e g @ '': ''
                         @ exn_text e x))) \<and>
         (\<forall>df encoded. load_frame e g = Inr df \<and> fst (draw e st g df) = Inr encoded \<longrightarrow>
            update_plot e st clickData =
              (Inr (Img (''data:image/png;base64,'' @ encoded)), st))"
proof -
  have t: "truthy clickData"
    using assms by (rule extract_truthy)
  have a: "\<exists>f. fst (update_plot e st clickData) = Inr f"
    using assms t by (simp add: update_plot_fst outcome_def split: sum.splits)
  have b: "update_plot e st clickData = (Inr (Div (error_text e g x)), st)"
    if "load_frame e g = Inl x" for x
    using assms t that by (simp add: update_plot_def render_or_error_def)
  have c: "fst (update_plot e st clickData) = Inr (Div (error_text e g x))"
    if "load_frame e g = Inr df" "fst (draw e st g df) = Inl x" for df x
    using assms t that by (simp add: update_plot_fst outcome_def draw_fst)
  have d: "update_plot e st clickData = (Inr (Img (''data:image/png;base64,'' @ encoded)), st)"
    if "load_frame e g = Inr df" "fst (draw e st g df) = Inr encoded" for df encoded
  proof -
    have "fst (update_plot e st clickData) = Inr (Img (''data:image/png;base64,'' @ encoded))"
      using assms t that by (simp add: update_plot_fst outcome_def draw_fst)
    moreover have "snd (update_plot e st clickData) = st"
      using assms t that draw_snd_ok [OF that(2)]
      by (simp add: update_plot_snd render_or_error_def)
    ultimately show ?thesis
      by (simp add: prod_eq_iff)
  qed
  show ?thesis
    using a b c d unfolding error_text_def by blast
qed

theorem block_failures_caught_witness:
  "update_plot empty_env [] (click_on (JStr ''01013500''))
     = (Inr (Div ''Error loading streamflow for gauge 01013500: not found''), [])"
proof -
  have lf: "load_frame empty_env (JStr ''01013500'') = Inl (KeyError (JStr ''01013500''))"
    by (simp add: load_frame_def lookup_dataset_def empty_env_def)
  show ?thesis
    using block_failures_caught [OF extract_click_on, of empty_env "[]" "JStr ''01013500''"] lf
    by (simp add: empty_env_def)
qed

text \<open>
  Claim C4. For a click that carries an identifier absent from the results store, the
  handler returns the error text fragment, the text contains the identifier as
  \<^verbatim>\<open>str\<close> renders it, and no image fragment is returned. An identifier that
  cannot be a key at all (a list or a mapping) is absent as well.
\<close>

theorem absent_station_error:
  assumes ex: "extract_gauge_id clickData = Inr g"
    and absent: "\<forall>k. key_of g = Inr k \<longrightarrow> results e k = None"
  shows "\<exists>x. update_plot e st clickData = (Inr (Div (error_text e g x)), st) \<and>
           sublist (str_of e g) (error_text e g x) \<and>
           (\<forall>src. fst (update_plot e st clickData) \<noteq> Inr (Img src))"
proof -
  obtain x where x: "lookup_dataset (results e) g = Inl x"
    using absent by (cases "key_of g") (auto simp: lookup_dataset_def)
  then have lf: "load_frame e g = Inl x"
    by (simp add: load_frame_def)
  have t: "truthy clickData"
    using ex by (rule extract_truthy)
  have up: "update_plot e st clickData = (Inr (Div (error_text e g x)), st)"
    using ex t lf by (simp add: update_plot_def render_or_error_def)
  have "error_text e g x = ''Error loading streamflow for gauge '' @ str_of e g @ ('': '' @ exn_text e x)"
    by (simp add: error_text_def)
  then have "sublist (str_of e g) (error_text e g x)"
    unfolding sublist_def by blast
  with up show ?thesis
    by auto
qed


theorem absent_station_error_witness:
  "update_plot empty_env [] (click_on (JStr ''02''))
     = (Inr (Div ''Error loading streamflow for gauge 02: not found''), [])"
proof -
  have absent: "\<forall>k. key_of (JStr ''02'') = Inr k \<longrightarrow> results empty_env k = None"
    by (simp add: empty_env_def)
  show ?thesis
    using absent_station_error [OF extract_click_on absent, of "[]"]
    by (auto simp: error_text_def empty_env_def)
qed

subsection \<open>Selecting the last time step\<close>

lemma collect_map_Inr:
  "\<forall>x \<in> set xs. \<exists>y. f x = Inr y \<Longrightarrow> \<exists>ys. collect (map f xs) = Inr ys"
  by (induction xs) (fastforce split: sum.splits)+

lemma take_last_conforms:
  "conforms sh a \<Longrightarrow> k < length sh \<Longrightarrow> sh ! k \<noteq> 0 \<Longrightarrow> \<exists>b. take_last k a = Inr b"
proof (induction k arbitrary: sh a)
  case 0
  then show ?case
    by (cases sh; cases a) auto
next
  case (Suc k)
  then obtain n ns xs where sh: "sh = n # ns" and a: "a = Arr xs"
    by (cases sh; cases a) auto
  have "\<exists>y. take_last k x = Inr y" if "x \<in> set xs" for x
    using Suc.IH [of ns x] Suc.prems that unfolding sh a by simp
  then have "\<forall>x \<in> set xs. \<exists>y. take_last k x = Inr y"
    by blast
  then obtain ys where "collect (map (take_last k) xs) = Inr ys"
    using collect_map_Inr [of xs "take_last k"] by blast
  then show ?case
    unfolding a by simp
qed

lemma take_last_grid:
  assumes "\<And>r. r \<in> set rows \<Longrightarrow> r \<noteq> []"
  shows "take_last (Suc 0) (Arr (map (\<lambda>r. Arr (map Scalar r)) rows))
           = Inr (Arr (map (\<lambda>r. Scalar (last r)) rows))"
proof -
  have "collect (map (take_last 0) (map (\<lambda>r. Arr (map Scalar r)) rows))
          = Inr (map (\<lambda>r. Scalar (last r)) rows)"
    using assms by (induction rows) (auto simp: last_map)
  then show ?thesis by simp
qed

lemma axis_of_less: "d \<in> set ds \<Longrightarrow> axis_of d ds < length ds"
  by (induction ds) auto

lemma axis_of_nth: "d \<in> set ds \<Longrightarrow> ds ! axis_of d ds = d"
  by (induction ds) auto

lemma map_of_filter_Some:
  "map_of xs k = Some v \<Longrightarrow> P (k, v) \<Longrightarrow> map_of (filter P xs) k = Some v"
  by (induction xs) (auto split: if_splits)

lemma traverse_keeps:
  assumes "traverse (\<lambda>(k, c). if P c then (case h c of Inl e \<Rightarrow> Inl e | Inr c' \<Rightarrow> Inr (k, c'))
                                else Inr (k, c)) xs = Inr ys"
    and "map_of xs name = Some c" and "\<not> P c"
  shows "map_of ys name = Some c"
  using assms
  by (induction xs arbitrary: ys) (auto split: sum.splits if_splits)

lemma traverse_changes:
  assumes "traverse (\<lambda>(k, c). if P c then (case h c of Inl e \<Rightarrow> Inl e | Inr c' \<Rightarrow> Inr (k, c'))
                                else Inr (k, c)) xs = Inr ys"
    and "map_of xs name = Some c" and "P c" and "h c = Inr c'"
  shows "map_of ys name = Some c'"
  using assms
  by (induction xs arbitrary: ys) (auto split: sum.splits if_splits)

lemma traverse_all_Inr:
  "\<forall>x \<in> set xs. \<exists>y. f x = Inr y \<Longrightarrow> \<exists>ys. traverse f xs = Inr ys"
  by (induction xs) (fastforce split: sum.splits)+

lemma in_dim_sizes:
  assumes "(n, v) \<in> set vs" and "i < length (dims v)" and "length (dims v) = length (shape v)"
  shows "(dims v ! i, shape v ! i) \<in> set (dim_sizes vs)"
proof -
  have "(dims v ! i, shape v ! i) \<in> set (zip (dims v) (shape v))"
    using assms(2,3) by (auto simp: set_zip)
  with assms(1) show ?thesis
    by (force simp: dim_sizes_def)
qed

lemma wf_dataset_variable:
  assumes "wf_dataset ds" and "(n, v) \<in> set (data_vars ds @ coords ds)"
  shows "wf_variable v"
  using assms unfolding wf_dataset_def by blast

lemma wf_dataset_size:
  assumes "wf_dataset ds"
    and "(d, n) \<in> set (dim_sizes (data_vars ds @ coords ds))"
    and "(d, n') \<in> set (dim_sizes (data_vars ds @ coords ds))"
  shows "n = n'"
  using assms unfolding wf_dataset_def by blast

lemma grid_rows:
  assumes "wf_variable (grid rows t)" and "r \<in> set rows"
  shows "length r = t"
  using assms by (auto simp: wf_variable_def grid_def)

lemma isel_last_grid:
  assumes wf: "wf_dataset ds"
    and var: "map_of (data_vars ds @ coords ds) name = Some (grid rows t)"
    and da: "map_of (coords ds) ''date'' = Some (date_axis dates)"
    and t: "0 < t"
  shows "\<exists>a cs. dataset_getitem ds name = Inr a \<and>
           isel_last a ''time_step'' =
             Inr \<lparr>da_variable = \<lparr>dims = [''date''], shape = [length rows],
                                  data = Arr (map (\<lambda>r. Scalar (last r)) rows)\<rparr>,
                  da_coords = cs\<rparr> \<and>
           map_of cs ''date'' = Some (date_axis dates)"
proof -
  let ?all = "data_vars ds @ coords ds"
  let ?keep = "\<lambda>(k, c). set (dims c) \<subseteq> set (dims (grid rows t))"
  let ?a = "\<lparr>da_variable = grid rows t, da_coords = filter ?keep (coords ds)\<rparr>"
  let ?f = "\<lambda>(k, c). if ''time_step'' \<in> set (dims c)
                       then (case variable_isel_last ''time_step'' c of
                               Inl e \<Rightarrow> Inl e
                             | Inr c' \<Rightarrow> Inr (k, c'))
                       else Inr (k, c)"
  have mem: "(name, grid rows t) \<in> set ?all"
    using var by (rule map_of_SomeD)
  have wfg: "wf_variable (grid rows t)"
    using wf mem by (rule wf_dataset_variable)
  have ga: "dataset_getitem ds name = Inr ?a"
    using var by (simp add: dataset_getitem_def)
  have nonempty: "r \<noteq> []" if "r \<in> set rows" for r
    using grid_rows [OF wfg that] t by auto
  have tsize: "(''time_step'', t) \<in> set (dim_sizes ?all)"
    using in_dim_sizes [OF mem, of 1] by (simp add: grid_def)
  have v: "variable_isel_last ''time_step'' (grid rows t) =
             Inr \<lparr>dims = [''date''], shape = [length rows],
                  data = Arr (map (\<lambda>r. Scalar (last r)) rows)\<rparr>"
    using t take_last_grid [of rows] nonempty
    by (simp add: variable_isel_last_def grid_def drop_axis_def)
  have each: "\<exists>y. ?f x = Inr y" if x: "x \<in> set (filter ?keep (coords ds))" for x
  proof -
    obtain k c where kc: "x = (k, c)" by (cases x)
    show ?thesis
    proof (cases "''time_step'' \<in> set (dims c)")
      case False
      then show ?thesis by (simp add: kc)
    next
      case True
      have cm: "(k, c) \<in> set ?all"
        using x kc by auto
      have wfc: "wf_variable c"
        using wf cm by (rule wf_dataset_variable)
      let ?k = "axis_of ''time_step'' (dims c)"
      have kl: "?k < length (dims c)"
        using True by (rule axis_of_less)
      have "(dims c ! ?k, shape c ! ?k) \<in> set (dim_sizes ?all)"
        using in_dim_sizes [OF cm kl] wfc by (simp add: wf_variable_def)
      then have "(''time_step'', shape c ! ?k) \<in> set (dim_sizes ?all)"
        using axis_of_nth [OF True] by simp
      then have sz: "shape c ! ?k = t"
        using wf_dataset_size [OF wf _ tsize] by blast
      have "\<exists>b. take_last ?k (data c) = Inr b"
        using take_last_conforms [of "shape c" "data c" ?k] wfc kl sz t
        by (simp add: wf_variable_def)
      then show ?thesis
        using True sz t by (auto simp: kc variable_isel_last_def Let_def)
    qed
  qed
  then have "\<forall>x \<in> set (filter ?keep (coords ds)). \<exists>y. ?f x = Inr y"
    by blast
  then obtain cs where cs: "traverse ?f (filter ?keep (coords ds)) = Inr cs"
    using traverse_all_Inr [of "filter ?keep (coords ds)" ?f] by blast
  have kept: "map_of (filter ?keep (coords ds)) ''date'' = Some (date_axis dates)"
    using da by (rule map_of_filter_Some) (simp add: date_axis_def grid_def)
  have date: "map_of cs ''date'' = Some (date_axis dates)"
    using traverse_keeps [of "\<lambda>c. ''time_step'' \<in> set (dims c)"
        "variable_isel_last ''time_step''" "filter ?keep (coords ds)" cs "''date''"
        "date_axis dates"] cs kept
    by (simp add: date_axis_def)
  have "isel_last ?a ''time_step'' =
          Inr \<lparr>da_variable = \<lparr>dims = [''date''], shape = [length rows],
                               data = Arr (map (\<lambda>r. Scalar (last r)) rows)\<rparr>,
               da_coords = cs\<rparr>"
    using v cs by (simp add: isel_last_def grid_def)
  with ga date show ?thesis
    by blast
qed


lemma concat_flatten_scalar: "concat (map (flatten \<circ> (\<lambda>r. Scalar (f r))) rows) = map f rows"
  by (induction rows) auto

lemma concat_flatten_Scalar: "concat (map (flatten \<circ> Scalar) cs) = cs"
  by (induction cs) auto

lemma b64encode_nonempty: "bs \<noteq> [] \<Longrightarrow> b64encode bs \<noteq> []"
  by (cases bs rule: b64encode.cases) (simp_all add: Let_def)

lemma lookup_dataset_present:
  assumes "key_of g = Inr k" and "k \<noteq> KNaN" and "store k = Some station"
    and "station ''1D'' = Some res" and "res ''xr'' = Some ds"
  shows "lookup_dataset store g = Inr ds"
  using assms by (simp add: lookup_dataset_def)

lemma load_frame_grid:
  assumes lk: "lookup_dataset (results e) g = Inr ds"
    and wf: "wf_dataset ds"
    and ob: "map_of (data_vars ds @ coords ds) ''flow_mm_d_obs'' = Some (grid obs t)"
    and si: "map_of (data_vars ds @ coords ds) ''flow_mm_d_sim'' = Some (grid sim t)"
    and da: "map_of (coords ds) ''date'' = Some (date_axis dates)"
    and t: "0 < t"
  shows "load_frame e g =
           Inr \<lparr>index = [0..<length dates],
                columns = [(''date'', dates),
                           (''Observed Flow (mm/d)'', map last obs),
                           (''Simulated Flow (mm/d)'', map last sim)]\<rparr>"
    and "length obs = length dates" and "length sim = length dates"
proof -
  let ?all = "data_vars ds @ coords ds"
  have dm: "(''date'', date_axis dates) \<in> set ?all"
    using map_of_SomeD [OF da] by simp
  have dsz: "(''date'', length dates) \<in> set (dim_sizes ?all)"
    using in_dim_sizes [OF dm, of 0] by (simp add: date_axis_def)
  have osz: "(''date'', length obs) \<in> set (dim_sizes ?all)"
    using in_dim_sizes [OF map_of_SomeD [OF ob], of 0] by (simp add: grid_def)
  have ssz: "(''date'', length sim) \<in> set (dim_sizes ?all)"
    using in_dim_sizes [OF map_of_SomeD [OF si], of 0] by (simp add: grid_def)
  show lo: "length obs = length dates"
    using wf osz dsz by (rule wf_dataset_size)
  show ls: "length sim = length dates"
    using wf ssz dsz by (rule wf_dataset_size)
  obtain a cs where a: "dataset_getitem ds ''flow_mm_d_obs'' = Inr a"
    and ia: "isel_last a ''time_step'' =
               Inr \<lparr>da_variable = \<lparr>dims = [''date''], shape = [length obs],
                                    data = Arr (map (\<lambda>r. Scalar (last r)) obs)\<rparr>,
                    da_coords = cs\<rparr>"
    and cd: "map_of cs ''date'' = Some (date_axis dates)"
    using isel_last_grid [OF wf ob da t] by blast
  obtain b cs' where b: "dataset_getitem ds ''flow_mm_d_sim'' = Inr b"
    and ib: "isel_last b ''time_step'' =
               Inr \<lparr>da_variable = \<lparr>dims = [''date''], shape = [length sim],
                                    data = Arr (map (\<lambda>r. Scalar (last r)) sim)\<rparr>,
                    da_coords = cs'\<rparr>"
    using isel_last_grid [OF wf si da t] by blast
  show "load_frame e g =
           Inr \<lparr>index = [0..<length dates],
                columns = [(''date'', dates),
                           (''Observed Flow (mm/d)'', map last obs),
                           (''Simulated Flow (mm/d)'', map last sim)]\<rparr>"
    using lk a ia b ib cd lo ls
    by (simp add: load_frame_def dataarray_getitem_def DataFrame_def column_cells_def
        date_axis_def concat_flatten_scalar concat_flatten_Scalar)
qed

lemma draw_outcome_frame:
  "draw_outcome e g
     \<lparr>index = ix,
      columns = [(''date'', d), (''Observed Flow (mm/d)'', obs),
                 (''Simulated Flow (mm/d)'', sim)]\<rparr>
   = (case print_png e (streamflow_figure (str_of e g) d obs sim) of
        Inl x \<Rightarrow> Inl x
      | Inr png \<Rightarrow> Inr (b64encode png))"
  by (simp add: draw_outcome_def getitem_column_def)

lemma two_day_dataset_wf: "wf_dataset two_day_dataset"
  by (simp add: wf_dataset_def wf_variable_def dim_sizes_def two_day_dataset_def grid_def
      date_axis_def)

lemma two_day_load_frame:
  "load_frame two_day_env (JStr ''a'') =
     Inr \<lparr>index = [0, 1],
          columns = [(''date'', [CDate 0, CDate 1]),
                     (''Observed Flow (mm/d)'', [CFloat (Fin 1), CFloat (Fin 2)]),
                     (''Simulated Flow (mm/d)'', [CFloat (Fin 3), CFloat (Fin 4)])]\<rparr>"
proof -
  have lk: "lookup_dataset (results two_day_env) (JStr ''a'') = Inr two_day_dataset"
    by (simp add: lookup_dataset_def two_day_env_def)
  have ob: "map_of (data_vars two_day_dataset @ coords two_day_dataset) ''flow_mm_d_obs''
              = Some (grid [[CFloat (Fin 1)], [CFloat (Fin 2)]] 1)"
    and si: "map_of (data_vars two_day_dataset @ coords two_day_dataset) ''flow_mm_d_sim''
              = Some (grid [[CFloat (Fin 3)], [CFloat (Fin 4)]] 1)"
    and da: "map_of (coords two_day_dataset) ''date'' = Some (date_axis [CDate 0, CDate 1])"
    by (simp_all add: two_day_dataset_def)
  show ?thesis
    using load_frame_grid(1) [OF lk two_day_dataset_wf ob si da] 
    by (simp add: upt_rec)
qed

text \<open>
  Claim C3, as stated, fails. \<^verbatim>\<open>isel(time_step=-1)\<close> removes the dimension
  \<^verbatim>\<open>time_step\<close> only; what is left runs along \<^verbatim>\<open>date\<close>, and the table of
  lines 105 to 109 has one row per date. For the station of \<open>two_day_env\<close> (two dates,
  one time step each) the table has two rows, and the handler returns the image of the
  chart with both dates: the renderer of that store raises on the chart of the final
  date alone.
\<close>

theorem click_plots_two_days_not_one:
  "load_frame two_day_env (JStr ''a'') =
     Inr \<lparr>index = [0, 1],
          columns = [(''date'', [CDate 0, CDate 1]),
                     (''Observed Flow (mm/d)'', [CFloat (Fin 1), CFloat (Fin 2)]),
                     (''Simulated Flow (mm/d)'', [CFloat (Fin 3), CFloat (Fin 4)])]\<rparr> \<and>
   update_plot two_day_env [] (click_on (JStr ''a''))
     = (Inr (Img ''data:image/png;base64,iVBORw==''), []) \<and>
   print_png two_day_env
     (streamflow_figure ''a'' [CDate 1] [CFloat (Fin 2)] [CFloat (Fin 4)])
     = Inl (RuntimeError ''another chart'')"
proof -
  have png: "print_png two_day_env
               (streamflow_figure (str_of two_day_env (JStr ''a'')) [CDate 0, CDate 1]
                  [CFloat (Fin 1), CFloat (Fin 2)] [CFloat (Fin 3), CFloat (Fin 4)])
             = Inr [137, 80, 78, 71]"
    by (simp add: two_day_env_def)
  have "outcome two_day_env (click_on (JStr ''a'')) = Inr (Img ''data:image/png;base64,iVBORw=='')"
    using extract_truthy [OF extract_click_on]
    by (simp add: outcome_def extract_click_on two_day_load_frame draw_outcome_frame png
        b64_char_def b64_alphabet_def)
  then have f: "fst (update_plot two_day_env [] (click_on (JStr ''a'')))
                  = Inr (Img ''data:image/png;base64,iVBORw=='')"
    by (simp add: update_plot_fst)
  have "fst (render_or_error two_day_env [] (JStr ''a'')) = Inr (b64encode [137, 80, 78, 71])"
    by (simp add: render_or_error_fst two_day_load_frame draw_outcome_frame png)
  then have "snd (render_or_error two_day_env [] (JStr ''a'')) = []"
    by (rule render_or_error_snd_ok)
  then have "snd (update_plot two_day_env [] (click_on (JStr ''a''))) = []"
    using extract_truthy [OF extract_click_on]
    by (simp add: update_plot_snd extract_click_on)
  with f have "update_plot two_day_env [] (click_on (JStr ''a''))
      = (Inr (Img ''data:image/png;base64,iVBORw==''), [])"
    by (simp add: prod_eq_iff)
  moreover have "print_png two_day_env
     (streamflow_figure ''a'' [CDate 1] [CFloat (Fin 2)] [CFloat (Fin 4)])
     = Inl (RuntimeError ''another chart'')"
    by (simp add: two_day_env_def streamflow_figure_def)
  ultimately show ?thesis
    using two_day_load_frame by simp
qed

text \<open>
  Claim C3, amended. For a station present in the results store whose daily dataset is
  well formed, with the observed and simulated flow laid out over \<^verbatim>\<open>date\<close> and
  \<^verbatim>\<open>time_step\<close>, at least one time step, and \<^verbatim>\<open>date\<close> a coordinate along
  its dimension: when matplotlib renders the chart to a non-empty PNG, a click on the
  station returns the image fragment whose source is the data URI of the base64 text
  of that PNG, the text is not empty, and the registry is as before. The chart has one
  observed and one simulated point per date of the series, namely the entry of the
  final time step at every date.
\<close>

theorem click_plots_every_date:
  assumes ex: "extract_gauge_id clickData = Inr g"
    and k: "key_of g = Inr k" "k \<noteq> KNaN"
    and station: "results e k = Some station" "station ''1D'' = Some res" "res ''xr'' = Some ds"
    and wf: "wf_dataset ds"
    and ob: "map_of (data_vars ds @ coords ds) ''flow_mm_d_obs'' = Some (grid obs t)"
    and si: "map_of (data_vars ds @ coords ds) ''flow_mm_d_sim'' = Some (grid sim t)"
    and da: "map_of (coords ds) ''date'' = Some (date_axis dates)"
    and t: "0 < t"
    and png: "print_png e (streamflow_figure (str_of e g) dates (map last obs) (map last sim))
                = Inr png"
    and ne: "png \<noteq> []"
  shows "update_plot e st clickData =
           (Inr (Img (''data:image/png;base64,'' @ b64encode png)), st) \<and>
         b64encode png \<noteq> [] \<and>
         map (\<lambda>l. (length (xdata l), length (ydata l)))
             (axes_lines (streamflow_figure (str_of e g) dates (map last obs) (map last sim)))
           = [(length dates, length dates), (length dates, length dates)] \<and>
         map xdata (axes_lines (streamflow_figure (str_of e g) dates (map last obs) (map last sim)))
           = [dates, dates] \<and>
         map ydata (axes_lines (streamflow_figure (str_of e g) dates (map last obs) (map last sim)))
           = [map last obs, map last sim]"
proof -
  have lk: "lookup_dataset (results e) g = Inr ds"
    using k station by (rule lookup_dataset_present)
  note lf = load_frame_grid [OF lk wf ob si da t]
  have tr: "truthy clickData"
    using ex by (rule extract_truthy)
  have out: "outcome e clickData = Inr (Img (''data:image/png;base64,'' @ b64encode png))"
    using tr ex lf(1) png by (simp add: outcome_def draw_outcome_frame)
  have f: "fst (update_plot e st clickData) = Inr (Img (''data:image/png;base64,'' @ b64encode png))"
    using out by (simp add: update_plot_fst)
  have "fst (render_or_error e st g) = Inr (b64encode png)"
    using lf(1) png by (simp add: render_or_error_fst draw_outcome_frame)
  then have "snd (render_or_error e st g) = st"
    by (rule render_or_error_snd_ok)
  then have "snd (update_plot e st clickData) = st"
    using tr ex by (simp add: update_plot_snd)
  with f have "update_plot e st clickData =
      (Inr (Img (''data:image/png;base64,'' @ b64encode png)), st)"
    by (simp add: prod_eq_iff)
  then show ?thesis
    using b64encode_nonempty [OF ne] lf(2,3)
    by (simp add: streamflow_figure_def)
qed


theorem click_plots_every_date_witness:
  "update_plot two_day_env [] (click_on (JStr ''a''))
     = (Inr (Img (''data:image/png;base64,'' @ b64encode [137, 80, 78, 71])), []) \<and>
   b64encode [137, 80, 78, 71] \<noteq> []"
proof -
  have ob: "map_of (data_vars two_day_dataset @ coords two_day_dataset) ''flow_mm_d_obs''
              = Some (grid [[CFloat (Fin 1)], [CFloat (Fin 2)]] 1)"
    and si: "map_of (data_vars two_day_dataset @ coords two_day_dataset) ''flow_mm_d_sim''
              = Some (grid [[CFloat (Fin 3)], [CFloat (Fin 4)]] 1)"
    and da: "map_of (coords two_day_dataset) ''date'' = Some (date_axis [CDate 0, CDate 1])"
    by (simp_all add: two_day_dataset_def)
  have k: "key_of (JStr ''a'') = Inr (KStr ''a'')" "KStr ''a'' \<noteq> KNaN"
    by simp_all
  have st: "results two_day_env (KStr ''a'') = Some [''1D'' \<mapsto> [''xr'' \<mapsto> two_day_dataset]]"
    "[''1D'' \<mapsto> [''xr'' \<mapsto> two_day_dataset]] ''1D'' = Some [''xr'' \<mapsto> two_day_dataset]"
    "[''xr'' \<mapsto> two_day_dataset] ''xr'' = Some two_day_dataset"
    by (simp_all add: two_day_env_def)
  have png: "print_png two_day_env
               (streamflow_figure (str_of two_day_env (JStr ''a'')) [CDate 0, CDate 1]
                  (map last [[CFloat (Fin 1)], [CFloat (Fin 2)]])
                  (map last [[CFloat (Fin 3)], [CFloat (Fin 4)]]))
             = Inr [137, 80, 78, 71]"
    by (simp add: two_day_env_def)
  have ne: "[137, 80, 78, 71] \<noteq> ([] :: 8 word list)"
    by simp
  show ?thesis
    using click_plots_every_date [OF extract_click_on k st two_day_dataset_wf ob si da _ png ne,
        of "[]"]
    by simp
qed


text \<open>
  A series that runs along \<^verbatim>\<open>time_step\<close> alone leaves three scalars after the
  selection, which \<^verbatim>\<open>pd.DataFrame\<close> refuses: the click returns the error fragment,
  not a chart of one point.
\<close>

lemma isel_last_series:
  assumes wf: "wf_dataset ds"
    and var: "map_of (data_vars ds @ coords ds) name = Some (series xs)"
    and da: "map_of (coords ds) ''date'' = Some (series dates)"
    and ne: "xs \<noteq> []"
  shows "\<exists>a cs. dataset_getitem ds name = Inr a \<and>
           isel_last a ''time_step'' =
             Inr \<lparr>da_variable = \<lparr>dims = [], shape = [], data = Scalar (last xs)\<rparr>,
                  da_coords = cs\<rparr> \<and>
           map_of cs ''date'' = Some \<lparr>dims = [], shape = [], data = Scalar (last dates)\<rparr>"
proof -
  let ?all = "data_vars ds @ coords ds"
  let ?keep = "\<lambda>(k, c). set (dims c) \<subseteq> set (dims (series xs))"
  let ?a = "\<lparr>da_variable = series xs, da_coords = filter ?keep (coords ds)\<rparr>"
  let ?f = "\<lambda>(k, c). if ''time_step'' \<in> set (dims c)
                       then (case variable_isel_last ''time_step'' c of
                               Inl e \<Rightarrow> Inl e
                             | Inr c' \<Rightarrow> Inr (k, c'))
                       else Inr (k, c)"
  have mem: "(name, series xs) \<in> set ?all"
    using var by (rule map_of_SomeD)
  have ga: "dataset_getitem ds name = Inr ?a"
    using var by (simp add: dataset_getitem_def)
  have tsize: "(''time_step'', length xs) \<in> set (dim_sizes ?all)"
    using in_dim_sizes [OF mem, of 0] by (simp add: series_def)
  have dm: "(''date'', series dates) \<in> set ?all"
    using map_of_SomeD [OF da] by simp
  have "(''time_step'', length dates) \<in> set (dim_sizes ?all)"
    using in_dim_sizes [OF dm, of 0] by (simp add: series_def)
  then have "length dates = length xs"
    using wf_dataset_size [OF wf _ tsize] by blast
  then have dne: "dates \<noteq> []"
    using ne by auto
  have v: "variable_isel_last ''time_step'' (series xs) =
             Inr \<lparr>dims = [], shape = [], data = Scalar (last xs)\<rparr>"
    using ne by (simp add: variable_isel_last_def series_def drop_axis_def last_map)
  have dv: "variable_isel_last ''time_step'' (series dates) =
             Inr \<lparr>dims = [], shape = [], data = Scalar (last dates)\<rparr>"
    using dne by (simp add: variable_isel_last_def series_def drop_axis_def last_map)
  have each: "\<exists>y. ?f x = Inr y" if x: "x \<in> set (filter ?keep (coords ds))" for x
  proof -
    obtain k c where kc: "x = (k, c)" by (cases x)
    show ?thesis
    proof (cases "''time_step'' \<in> set (dims c)")
      case False
      then show ?thesis by (simp add: kc)
    next
      case True
      have cm: "(k, c) \<in> set ?all"
        using x kc by auto
      have wfc: "wf_variable c"
        using wf cm by (rule wf_dataset_variable)
      let ?k = "axis_of ''time_step'' (dims c)"
      have kl: "?k < length (dims c)"
        using True by (rule axis_of_less)
      have "(dims c ! ?k, shape c ! ?k) \<in> set (dim_sizes ?all)"
        using in_dim_sizes [OF cm kl] wfc by (simp add: wf_variable_def)
      then have "(''time_step'', shape c ! ?k) \<in> set (dim_sizes ?all)"
        using axis_of_nth [OF True] by simp
      then have sz: "shape c ! ?k = length xs"
        using wf_dataset_size [OF wf _ tsize] by blast
      have "\<exists>b. take_last ?k (data c) = Inr b"
        using take_last_conforms [of "shape c" "data c" ?k] wfc kl sz ne
        by (simp add: wf_variable_def)
      then show ?thesis
        using True sz ne by (auto simp: kc variable_isel_last_def Let_def)
    qed
  qed
  then have "\<forall>x \<in> set (filter ?keep (coords ds)). \<exists>y. ?f x = Inr y"
    by blast
  then obtain cs where cs: "traverse ?f (filter ?keep (coords ds)) = Inr cs"
    using traverse_all_Inr [of "filter ?keep (coords ds)" ?f] by blast
  have kept: "map_of (filter ?keep (coords ds)) ''date'' = Some (series dates)"
    using da by (rule map_of_filter_Some) (simp add: series_def)
  have date: "map_of cs ''date'' = Some \<lparr>dims = [], shape = [], data = Scalar (last dates)\<rparr>"
    using traverse_changes [of "\<lambda>c. ''time_step'' \<in> set (dims c)"
        "variable_isel_last ''time_step''" "filter ?keep (coords ds)" cs "''date''"
        "series dates"] cs kept dv
    by (simp add: series_def)
  have "isel_last ?a ''time_step'' =
          Inr \<lparr>da_variable = \<lparr>dims = [], shape = [], data = Scalar (last xs)\<rparr>,
               da_coords = cs\<rparr>"
    using v cs by (simp add: isel_last_def series_def)
  with ga date show ?thesis
    by blast
qed

lemma load_frame_series_refused:
  assumes lk: "lookup_dataset (results e) g = Inr ds"
    and wf: "wf_dataset ds"
    and ob: "map_of (data_vars ds @ coords ds) ''flow_mm_d_obs'' = Some (series obs)"
    and si: "map_of (data_vars ds @ coords ds) ''flow_mm_d_sim'' = Some (series sim)"
    and da: "map_of (coords ds) ''date'' = Some (series dates)"
    and ne: "obs \<noteq> []"
  shows "load_frame e g = Inl ValueError"
proof -
  let ?all = "data_vars ds @ coords ds"
  have "(''time_step'', length obs) \<in> set (dim_sizes ?all)"
    using in_dim_sizes [OF map_of_SomeD [OF ob], of 0] by (simp add: series_def)
  moreover have "(''time_step'', length sim) \<in> set (dim_sizes ?all)"
    using in_dim_sizes [OF map_of_SomeD [OF si], of 0] by (simp add: series_def)
  ultimately have "length sim = length obs"
    using wf_dataset_size [OF wf] by blast
  then have sne: "sim \<noteq> []"
    using ne by auto
  obtain a cs where a: "dataset_getitem ds ''flow_mm_d_obs'' = Inr a"
    and ia: "isel_last a ''time_step'' =
               Inr \<lparr>da_variable = \<lparr>dims = [], shape = [], data = Scalar (last obs)\<rparr>,
                    da_coords = cs\<rparr>"
    and cd: "map_of cs ''date'' = Some \<lparr>dims = [], shape = [], data = Scalar (last dates)\<rparr>"
    using isel_last_series [OF wf ob da ne] by blast
  obtain b cs' where b: "dataset_getitem ds ''flow_mm_d_sim'' = Inr b"
    and ib: "isel_last b ''time_step'' =
               Inr \<lparr>da_variable = \<lparr>dims = [], shape = [], data = Scalar (last sim)\<rparr>,
                    da_coords = cs'\<rparr>"
    using isel_last_series [OF wf si da sne] by blast
  show ?thesis
    using lk a ia b ib cd
    by (simp add: load_frame_def dataarray_getitem_def DataFrame_def)
qed

lemma series_click_is_error:
  assumes ex: "extract_gauge_id clickData = Inr g"
    and lk: "lookup_dataset (results e) g = Inr ds"
    and wf: "wf_dataset ds"
    and ob: "map_of (data_vars ds @ coords ds) ''flow_mm_d_obs'' = Some (series obs)"
    and si: "map_of (data_vars ds @ coords ds) ''flow_mm_d_sim'' = Some (series sim)"
    and da: "map_of (coords ds) ''date'' = Some (series dates)"
    and ne: "obs \<noteq> []"
  shows "update_plot e st clickData = (Inr (Div (error_text e g ValueError)), st)"
  using extract_truthy [OF ex] ex load_frame_series_refused [OF lk wf ob si da ne]
  by (simp add: update_plot_def render_or_error_def)

subsection \<open>The map figure\<close>

lemma first_seen_set: "set (first_seen xs) = set xs"
  by (simp add: first_seen_def)

lemma first_seen_distinct: "distinct (first_seen xs)"
  by (simp add: first_seen_def)

lemma mset_groups_partial:
  "distinct ls \<Longrightarrow>
   mset (concat (map (\<lambda>l. filter (\<lambda>x. f x = l) xs) ls)) = filter_mset (\<lambda>x. f x \<in> set ls) (mset xs)"
proof (induction ls)
  case Nil
  then show ?case by simp
next
  case (Cons l ls)
  have "filter_mset (\<lambda>x. f x = l) (mset xs) + filter_mset (\<lambda>x. f x \<in> set ls) (mset xs)
          = filter_mset (\<lambda>x. f x \<in> set (l # ls)) (mset xs)"
    using Cons.prems by (auto intro!: multiset_eqI)
  with Cons show ?case by simp
qed

lemma mset_groups:
  assumes "distinct ls" and "\<forall>x \<in> set xs. f x \<in> set ls"
  shows "mset (concat (map (\<lambda>l. filter (\<lambda>x. f x = l) xs) ls)) = mset xs"
proof -
  have "filter (\<lambda>x. f x \<in> set ls) xs = xs"
    using assms(2) by (simp add: filter_True)
  then have "filter_mset (\<lambda>x. f x \<in> set ls) (mset xs) = mset xs"
    by (metis mset_filter)
  with mset_groups_partial [OF assms(1), of f xs] show ?thesis by simp
qed

lemma scatter_mapbox_traces:
  assumes "scatter_mapbox df la lo co hover cmap = Inr traces"
    and "map_of (columns df) co = Some cats"
  shows "\<exists>mk. (\<forall>i. row (mk i) = i) \<and>
           traces =
             map (\<lambda>v. \<lparr>trace_name = v, marker_color = discrete_colour cmap v,
                        points = map mk (filter (\<lambda>i. cats ! i = v) [0..<length (index df)])\<rparr>)
               (first_seen cats)"
  using assms
  by (auto simp: scatter_mapbox_def px_column_def split: option.splits sum.splits
      intro!: exI [of _ "\<lambda>i. \<lparr>lat = _ ! i, lon = _ ! i, customdata = map (\<lambda>col. col ! i) _, row = i\<rparr>"])

lemma discrete_colour_labels:
  "discrete_colour color_discrete_map (CStr label_not_satisfactory) = Fixed ''red''"
  "discrete_colour color_discrete_map (CStr label_satisfactory) = Fixed ''yellow''"
  "discrete_colour color_discrete_map (CStr label_good) = Fixed ''lightgreen''"
  "discrete_colour color_discrete_map (CStr label_very_good) = Fixed ''green''"
  by (simp_all add: discrete_colour_def color_discrete_map_def label_not_satisfactory_def
      label_satisfactory_def label_good_def label_very_good_def)

lemma discrete_colour_row_label:
  "discrete_colour color_discrete_map (CStr (row_label s))
     \<in> {Fixed ''red'', Fixed ''yellow'', Fixed ''lightgreen'', Fixed ''green''}"
  using row_label_cases [of s] discrete_colour_labels by auto

text \<open>
  Claim C7. When the figure is built from the prepared station table, its traces hold
  exactly one point per row of the table: the rows of the points, taken over all
  traces, are the rows of the table, each once. Every trace has one of the four fixed
  colours red, yellow, lightgreen and green, and the colour of a point's trace is the
  colour \<^verbatim>\<open>color_discrete_map\<close> gives the \<^verbatim>\<open>NSE\<close> label of the point's row.
  The later layout and marker-size updates (lines 53 to 72) change neither the points
  nor the colours.
\<close>

theorem map_points_and_colours:
  assumes wf: "wf_dataframe df"
    and ok: "add_nse_category df = Inr df'"
    and fg: "fig df' = Inr traces"
  shows "mset (map row (concat (map points traces))) = mset [0..<length (index df)] \<and>
         (\<exists>nse. getitem_column df' ''NSE'' = Inr nse \<and>
            (\<forall>t \<in> set traces.
               marker_color t \<in> {Fixed ''red'', Fixed ''yellow'', Fixed ''lightgreen'', Fixed ''green''} \<and>
               (\<forall>p \<in> set (points t).
                  row p < length (index df) \<and>
                  trace_name t = nse ! row p \<and>
                  marker_color t = discrete_colour color_discrete_map (nse ! row p) \<and>
                  (nse ! row p = CStr label_not_satisfactory \<longrightarrow> marker_color t = Fixed ''red'') \<and>
                  (nse ! row p = CStr label_satisfactory \<longrightarrow> marker_color t = Fixed ''yellow'') \<and>
                  (nse ! row p = CStr label_good \<longrightarrow> marker_color t = Fixed ''lightgreen'') \<and>
                  (nse ! row p = CStr label_very_good \<longrightarrow> marker_color t = Fixed ''green''))))"
proof -
  let ?n = "length (index df)"
  obtain sc where sc: "map_of (columns df) score_column = Some sc"
    using ok by (auto simp: add_nse_category_eq split: option.splits)
  have len: "length sc = ?n"
    using wf sc by (rule wf_column_length)
  let ?nse = "map (\<lambda>c. CStr (row_label (score_of c))) sc"
  have nse: "map_of (columns df') ''NSE'' = Some ?nse"
    using add_nse_category_NSE [OF ok sc len] .
  have ix: "index df' = index df"
    using add_nse_category_frame(1) [OF ok] .
  obtain mk where mk: "\<forall>i. row (mk i) = i"
    and tr: "traces =
      map (\<lambda>v. \<lparr>trace_name = v, marker_color = discrete_colour color_discrete_map v,
                 points = map mk (filter (\<lambda>i. ?nse ! i = v) [0..<?n])\<rparr>)
        (first_seen ?nse)"
    using scatter_mapbox_traces [OF fg [unfolded fig_def] nse] ix by auto
  have rows: "map row (concat (map points traces))
                = concat (map (\<lambda>v. filter (\<lambda>i. ?nse ! i = v) [0..<?n]) (first_seen ?nse))"
    using mk by (simp add: tr map_concat comp_def)
  have cover: "\<forall>i \<in> set [0..<?n]. ?nse ! i \<in> set (first_seen ?nse)"
    using len by (simp add: first_seen_set)
  have count: "mset (map row (concat (map points traces))) = mset [0..<?n]"
    unfolding rows using first_seen_distinct cover by (rule mset_groups)
  have colour: "marker_color t \<in> {Fixed ''red'', Fixed ''yellow'', Fixed ''lightgreen'', Fixed ''green''}"
    if t: "t \<in> set traces" for t
  proof -
    obtain c where "marker_color t = discrete_colour color_discrete_map (CStr (row_label (score_of c)))"
      using t by (auto simp: tr first_seen_set)
    then show ?thesis
      using discrete_colour_row_label [of "score_of c"] by simp
  qed
  have point: "row p < ?n \<and> trace_name t = ?nse ! row p \<and>
               marker_color t = discrete_colour color_discrete_map (?nse ! row p)"
    if t: "t \<in> set traces" and p: "p \<in> set (points t)" for t p
    using t p mk by (auto simp: tr first_seen_set)
  have four: "(?nse ! row p = CStr label_not_satisfactory \<longrightarrow> marker_color t = Fixed ''red'') \<and>
              (?nse ! row p = CStr label_satisfactory \<longrightarrow> marker_color t = Fixed ''yellow'') \<and>
              (?nse ! row p = CStr label_good \<longrightarrow> marker_color t = Fixed ''lightgreen'') \<and>
              (?nse ! row p = CStr label_very_good \<longrightarrow> marker_color t = Fixed ''green'')"
    if t: "t \<in> set traces" and p: "p \<in> set (points t)" for t p
  proof -
    have "marker_color t = discrete_colour color_discrete_map (?nse ! row p)"
      using point [OF t p] by simp
    then show ?thesis
      using discrete_colour_labels by simp
  qed
  have all: "\<forall>t \<in> set traces.
          marker_color t \<in> {Fixed ''red'', Fixed ''yellow'', Fixed ''lightgreen'', Fixed ''green''} \<and>
          (\<forall>p \<in> set (points t).
             row p < ?n \<and> trace_name t = ?nse ! row p \<and>
             marker_color t = discrete_colour color_discrete_map (?nse ! row p) \<and>
             (?nse ! row p = CStr label_not_satisfactory \<longrightarrow> marker_color t = Fixed ''red'') \<and>
             (?nse ! row p = CStr label_satisfactory \<longrightarrow> marker_color t = Fixed ''yellow'') \<and>
             (?nse ! row p = CStr label_good \<longrightarrow> marker_color t = Fixed ''lightgreen'') \<and>
             (?nse ! row p = CStr label_very_good \<longrightarrow> marker_color t = Fixed ''green''))"
  proof (intro ballI conjI)
    fix t assume t: "t \<in> set traces"
    show "marker_color t \<in> {Fixed ''red'', Fixed ''yellow'', Fixed ''lightgreen'', Fixed ''green''}"
      using t by (rule colour)
    fix p assume p: "p \<in> set (points t)"
    show "row p < ?n" "trace_name t = ?nse ! row p"
      "marker_color t = discrete_colour color_discrete_map (?nse ! row p)"
      using point [OF t p] by simp_all
    show "?nse ! row p = CStr label_not_satisfactory \<longrightarrow> marker_color t = Fixed ''red''"
      "?nse ! row p = CStr label_satisfactory \<longrightarrow> marker_color t = Fixed ''yellow''"
      "?nse ! row p = CStr label_good \<longrightarrow> marker_color t = Fixed ''lightgreen''"
      "?nse ! row p = CStr label_very_good \<longrightarrow> marker_color t = Fixed ''green''"
      using four [OF t p] by simp_all
  qed
  have g: "getitem_column df' ''NSE'' = Inr ?nse"
    using nse by (simp add: getitem_column_def)
  show ?thesis
    using count g all by (intro conjI exI [of _ ?nse])
qed


theorem map_points_and_colours_witness:
  "(\<exists>df' traces.
      add_nse_category three_stations = Inr df' \<and> fig df' = Inr traces \<and>
      map marker_color traces = [Fixed ''green'', Fixed ''red''] \<and>
      map (\<lambda>t. map row (points t)) traces = [[0, 2], [1]] \<and>
      mset (map row (concat (map points traces))) = mset [0, 1, 2])"
proof -
  let ?df' = "\<lparr>index = [0, 1, 2 :: nat],
      columns =
        [(''gauge_id'', [CStr ''a'', CStr ''b'', CStr ''c'']),
         (''lat'', [CFloat (Fin 45), CFloat (Fin 46), CFloat (Fin 47)]),
         (''long'', [CFloat (Fin (-70)), CFloat (Fin (-71)), CFloat (Fin (-72))]),
         (''casr_daymet_era5_NSE'', [CFloat (Fin (9 / 10)), CFloat (Fin (3 / 10)), CFloat (Fin (17 / 20))]),
         (''NSE'', [CStr label_very_good, CStr label_not_satisfactory, CStr label_very_good])]\<rparr>"
  have wf: "wf_dataframe three_stations"
    by (simp add: wf_dataframe_def three_stations_def)
  have ok: "add_nse_category three_stations = Inr ?df'"
    by (simp add: three_stations_def add_nse_category_eq score_column_def numeric_def
        setitem_scalar_def loc_setitem_def sel1_def sel2_def sel3_def score_of_def
        lit_0_5_def lit_0_7_def lit_0_8_def)
  obtain traces where fg: "fig ?df' = Inr traces"
    and cols: "map marker_color traces = [Fixed ''green'', Fixed ''red'']"
    and rows: "map (\<lambda>t. map row (points t)) traces = [[0, 2], [1]]"
    by (simp add: fig_def scatter_mapbox_def px_column_def score_column_def first_seen_def
        discrete_colour_def color_discrete_map_def label_very_good_def label_not_satisfactory_def
        upt_rec)
  have "length (index three_stations) = 3"
    by (simp add: three_stations_def)
  then have ms: "mset (map row (concat (map points traces))) = mset [0, 1, 2]"
    using map_points_and_colours [OF wf ok fg] by (simp add: upt_rec)
  show ?thesis
    using ok fg cols rows ms
    by (intro exI [of _ ?df'] exI [of _ traces]) simp
qed

end
